theory Spec2Isabelle
  imports Complex_Main "HOL-Library.Word"
begin

section \<open>Numeric conventions\<close>

text \<open>
  The program computes with NumPy \<^verbatim>\<open>float64\<close> values. They are idealised here as
  real numbers: every arithmetic operation is exact, and the only rounding is the one the
  source asks for explicitly with \<^verbatim>\<open>np.around\<close>. The three non-finite results a
  NumPy division can produce are kept as separate constructors, because NumPy does not
  raise on a division by zero: it emits a \<^verbatim>\<open>RuntimeWarning\<close> and returns
  \<^verbatim>\<open>inf\<close> (or \<^verbatim>\<open>nan\<close> for \<^verbatim>\<open>0/0\<close>).
\<close>

datatype np_float = Finite real | PosInf | NegInf | NaN

text \<open>\<^verbatim>\<open>np.rint\<close>: round to the nearest integer, ties to the even neighbour.\<close>

definition rint :: "real \<Rightarrow> int" where
  "rint x = (let f = \<lfloor>x\<rfloor>; r = x - of_int f in
     if r < 1/2 then f else if 1/2 < r then f + 1 else if even f then f else f + 1)"

text \<open>\<^verbatim>\<open>np.around(x, d)\<close>: scale by \<open>10^d\<close>, \<open>rint\<close>, scale back.\<close>

definition around :: "real \<Rightarrow> nat \<Rightarrow> real" where
  "around x d = of_int (rint (x * 10 ^ d)) / 10 ^ d"

fun np_around :: "np_float \<Rightarrow> nat \<Rightarrow> np_float" where
  "np_around (Finite x) d = Finite (around x d)"
| "np_around PosInf d = PosInf"
| "np_around NegInf d = NegInf"
| "np_around NaN d = NaN"

text \<open>True division of a Python float by a \<^verbatim>\<open>np.float64\<close> (the divisor is never
  a negative zero in this program: it is a rounded square root).\<close>

definition np_truediv :: "real \<Rightarrow> real \<Rightarrow> np_float" where
  "np_truediv a b =
     (if b \<noteq> 0 then Finite (a / b)
      else if a = 0 then NaN
      else if 0 < a then PosInf else NegInf)"

section \<open>Pixel coordinates\<close>

text \<open>
  \<^verbatim>\<open>analyzeFrame\<close> returns the key point's centre as \<^verbatim>\<open>np.uint16(np.around(pt))\<close>:
  a pair of unsigned 16-bit integers. \<^verbatim>\<open>float(x)\<close> of such a value is its unsigned
  reading.
\<close>

type_synonym pixel = "16 word \<times> 16 word"

definition float_of :: "16 word \<Rightarrow> real" where
  "float_of w = real (unat w)"

subsection \<open>\<^verbatim>\<open>CalibrateNozzles.getDistance\<close> (lines 1070-1078)\<close>

definition getDistance :: "16 word \<Rightarrow> 16 word \<Rightarrow> 16 word \<Rightarrow> 16 word \<Rightarrow> real" where
  "getDistance x1 y1 x0 y0 =
     (let x1_float = float_of x1;
          x0_float = float_of x0;
          y1_float = float_of y1;
          y0_float = float_of y0;
          x_dist = (x1_float - x0_float) ^ 2;
          y_dist = (y1_float - y0_float) ^ 2;
          retVal = sqrt (x_dist + y_dist)
      in around retVal 3)"

subsection \<open>The mpp assignment of \<^verbatim>\<open>calibrateTool\<close> (line 943)\<close>

text \<open>\<^verbatim>\<open>self.mpp = np.around(0.5/self.getDistance(oldxy[0],oldxy[1],xy[0],xy[1]),4)\<close>\<close>

definition calibrate_mpp :: "pixel \<Rightarrow> pixel \<Rightarrow> np_float" where
  "calibrate_mpp oldxy xy =
     np_around (np_truediv (1/2) (getDistance (fst oldxy) (snd oldxy) (fst xy) (snd xy))) 4"

text \<open>
  The specification's wording of the same quantity, kept apart for comparison:
  \<open>0.5\<close> divided by the exact Euclidean distance of the two detections, rounded to four
  decimals.
\<close>

definition euclidean_distance :: "pixel \<Rightarrow> pixel \<Rightarrow> real" where
  "euclidean_distance p0 p1 =
     sqrt ((float_of (fst p0) - float_of (fst p1)) ^ 2 + (float_of (snd p0) - float_of (snd p1)) ^ 2)"

definition spec_mpp_exact :: "pixel \<Rightarrow> pixel \<Rightarrow> real" where
  "spec_mpp_exact p0 p1 = around ((1/2) / euclidean_distance p0 p1) 4"

section \<open>Errors\<close>

text \<open>
  The exceptions the modelled code can raise. \<open>TypeError\<close>: unpacking or subscripting
  \<^verbatim>\<open>None\<close>; \<open>IndexError\<close>: a list read out of range; \<open>ValueError\<close>: a matrix
  product of mismatched shapes; \<open>LinAlgError\<close>: raised by \<^verbatim>\<open>np.linalg.lstsq\<close>
  itself; \<open>UnboundLocalError\<close>: a local variable read before any assignment.
\<close>

datatype py_error = TypeError | IndexError | ValueError | LinAlgError | UnboundLocalError

section \<open>Camera configuration and coordinate normalisation\<close>

text \<open>
  \<^verbatim>\<open>camera_width\<close> and \<^verbatim>\<open>camera_height\<close> are module globals (read from the
  settings file, 640 and 480 by default); \<open>cp_coords\<close> is the parent's controlled point;
  \<open>getG10ToolOffset\<close> is the printer's answer for a tool number; \<open>lstsq\<close> stands for
  \<^verbatim>\<open>np.linalg.lstsq(A, b, rcond=None)\<close>, a library routine outside the repository.
  The two dimensions are those of a frame, hence positive; the theorems that depend on
  normalised coordinates assume so, since the model's division is exact only then.
\<close>

record lstsq_result =
  solution :: "(real \<times> real) list"
  residuals :: "real list"
  rank :: nat
  singular_values :: "real list"

record calib_env =
  camera_width :: int
  camera_height :: int
  cp_coords :: "real \<times> real"
  getG10ToolOffset :: "nat \<Rightarrow> real \<times> real"
  lstsq :: "real list list \<Rightarrow> (real \<times> real) list \<Rightarrow> py_error + lstsq_result"

subsection \<open>\<^verbatim>\<open>CalibrateNozzles.normalize_coords\<close> (lines 1054-1056)\<close>

definition normalize_coords :: "calib_env \<Rightarrow> pixel \<Rightarrow> real \<times> real" where
  "normalize_coords env coords =
     (let xdim = real_of_int (camera_width env); ydim = real_of_int (camera_height env)
      in (float_of (fst coords) / xdim - 1/2, float_of (snd coords) / ydim - 1/2))"

section \<open>Matrices\<close>

text \<open>
  An \<open>n \<times> 2\<close> array (machine coordinates, the transform matrix) is a list of rows, each
  a pair; the design matrix is a list of rows, each a list of six entries.
  \<open>matT_vec T v\<close> is \<^verbatim>\<open>T.T @ v\<close> for \<open>T\<close> with as many rows as \<open>v\<close> has entries;
  the caller checks the shapes, because NumPy raises where \<open>zip\<close> would truncate.
\<close>

definition dot :: "real list \<Rightarrow> real list \<Rightarrow> real" where
  "dot u v = sum_list (map2 (*) u v)"

definition matT_vec :: "(real \<times> real) list \<Rightarrow> real list \<Rightarrow> real \<times> real" where
  "matT_vec T v = (dot (map fst T) v, dot (map snd T) v)"

definition mat_scale :: "real \<Rightarrow> (real \<times> real) list \<Rightarrow> (real \<times> real) list" where
  "mat_scale c T = map (\<lambda>(a, b). (c * a, c * b)) T"

text \<open>\<^verbatim>\<open>A @ X\<close> for a design matrix \<open>A\<close> and an \<open>n \<times> 2\<close> matrix \<open>X\<close>.\<close>

definition mat_mul :: "real list list \<Rightarrow> (real \<times> real) list \<Rightarrow> (real \<times> real) list" where
  "mat_mul A X = map (\<lambda>row. matT_vec X row) A"

text \<open>\<^verbatim>\<open>arr.mean()\<close>: the mean of an empty array is \<^verbatim>\<open>nan\<close> (with a warning).\<close>

definition np_mean :: "real list \<Rightarrow> np_float" where
  "np_mean xs = (if xs = [] then NaN else Finite (sum_list xs / real (length xs)))"

subsection \<open>\<^verbatim>\<open>CalibrateNozzles.least_square_mapping\<close> (lines 1058-1068)\<close>

text \<open>
  A calibration point is a pair \<open>(r, p)\<close> of a machine coordinate and a normalised pixel
  coordinate. \<open>design_row\<close> is one row of
  \<^verbatim>\<open>np.vstack([x**2, y**2, x*y, x, y, np.ones(n)]).T\<close>.
\<close>

type_synonym calibration_point = "(real \<times> real) \<times> (real \<times> real)"

definition design_row :: "real \<times> real \<Rightarrow> real list" where
  "design_row p = (let x = fst p; y = snd p in [x ^ 2, y ^ 2, x * y, x, y, 1])"

definition design_matrix :: "calibration_point list \<Rightarrow> real list list" where
  "design_matrix calibration_points = map (\<lambda>(r, p). design_row p) calibration_points"

definition real_coords :: "calibration_point list \<Rightarrow> (real \<times> real) list" where
  "real_coords calibration_points = map (\<lambda>(r, p). r) calibration_points"

definition least_square_mapping ::
  "calib_env \<Rightarrow> calibration_point list \<Rightarrow> py_error + ((real \<times> real) list \<times> np_float)" where
  "least_square_mapping env calibration_points =
     (let A = design_matrix calibration_points
      in case lstsq env A (real_coords calibration_points) of
           Inl e \<Rightarrow> Inl e
         | Inr transform \<Rightarrow> Inr (solution transform, np_mean (residuals transform)))"

subsection \<open>What \<^verbatim>\<open>np.linalg.lstsq\<close> promises\<close>

text \<open>
  The library routine is not part of the repository; its documented contract is stated
  here so that theorems can assume it of the \<open>lstsq\<close> parameter. For a design matrix
  \<open>a\<close> of shape \<open>(M, 6)\<close> and \<open>b\<close> of shape \<open>(M, 2)\<close> the documentation says: the
  solution minimises the Euclidean norm of \<open>b - a @ x\<close>, for each column of \<open>b\<close>; among
  several minimisers the one of smallest norm is returned; \<open>residuals\<close> holds the squared
  norm of each column of \<open>b - a @ x\<close>, and is empty when the rank of \<open>a\<close> is below 6 or
  \<open>M \<le> 6\<close>.
\<close>

definition col_sq_error ::
  "real list list \<Rightarrow> (real \<times> real) list \<Rightarrow> (real \<times> real) list \<Rightarrow> real \<times> real" where
  "col_sq_error A X B =
     (sum_list (map2 (\<lambda>p b. (fst b - fst p) ^ 2) (mat_mul A X) B),
      sum_list (map2 (\<lambda>p b. (snd b - snd p) ^ 2) (mat_mul A X) B))"

definition col_sq_norm :: "(real \<times> real) list \<Rightarrow> real \<times> real" where
  "col_sq_norm X = (sum_list (map (\<lambda>p. fst p ^ 2) X), sum_list (map (\<lambda>p. snd p ^ 2) X))"

definition full_column_rank :: "real list list \<Rightarrow> bool" where
  "full_column_rank A \<longleftrightarrow>
     (\<forall>c. length c = 6 \<longrightarrow> (\<forall>row \<in> set A. dot row c = 0) \<longrightarrow> c = replicate 6 0)"

definition is_least_squares ::
  "real list list \<Rightarrow> (real \<times> real) list \<Rightarrow> (real \<times> real) list \<Rightarrow> bool" where
  "is_least_squares A B X \<longleftrightarrow>
     length X = 6 \<and>
     (\<forall>X'. length X' = 6 \<longrightarrow>
        fst (col_sq_error A X B) \<le> fst (col_sq_error A X' B) \<and>
        snd (col_sq_error A X B) \<le> snd (col_sq_error A X' B))"

definition lstsq_contract ::
  "real list list \<Rightarrow> (real \<times> real) list \<Rightarrow> lstsq_result \<Rightarrow> bool" where
  "lstsq_contract A B res \<longleftrightarrow>
     is_least_squares A B (solution res) \<and>
     (\<forall>X'. is_least_squares A B X' \<longrightarrow>
        fst (col_sq_norm (solution res)) \<le> fst (col_sq_norm X') \<and>
        snd (col_sq_norm (solution res)) \<le> snd (col_sq_norm X')) \<and>
     residuals res =
       (if full_column_rank A \<and> 6 < length A
        then [fst (col_sq_error A (solution res) B), snd (col_sq_error A (solution res) B)]
        else [])"

text \<open>
  Samples generated without noise from a transform \<open>T0\<close>: every machine coordinate is
  the transform applied to the design row of its pixel coordinate.
\<close>

definition generated_from :: "(real \<times> real) list \<Rightarrow> calibration_point list \<Rightarrow> bool" where
  "generated_from T0 calibration_points \<longleftrightarrow>
     length T0 = 6 \<and>
     real_coords calibration_points = mat_mul (design_matrix calibration_points) T0"

definition within_tol :: "real \<Rightarrow> (real \<times> real) list \<Rightarrow> (real \<times> real) list \<Rightarrow> bool" where
  "within_tol eps X Y \<longleftrightarrow>
     list_all2 (\<lambda>p q. \<bar>fst p - fst q\<bar> \<le> eps \<and> \<bar>snd p - snd q\<bar> \<le> eps) X Y"

section \<open>Text encodings of the result record\<close>

text \<open>
  \<open>str_nat\<close> is Python's \<^verbatim>\<open>str\<close> on a non-negative integer (tool numbers and cycle
  indices come from \<^verbatim>\<open>range\<close>).
\<close>

definition digit_char :: "nat \<Rightarrow> char" where
  "digit_char d = char_of (48 + d)"

fun str_nat :: "nat \<Rightarrow> string" where
  "str_nat n = (if n < 10 then [digit_char n] else str_nat (n div 10) @ [digit_char (n mod 10)])"

declare str_nat.simps [simp del]

definition zero_pad :: "nat \<Rightarrow> string \<Rightarrow> string" where
  "zero_pad w s = replicate (w - length s) (CHR ''0'') @ s"

text \<open>
  \<^verbatim>\<open>"{:.3f}".format(x)\<close>: sign, integer digits, a point and exactly three decimals.
  On the idealised reals a value that rounds to zero prints without a sign (a float
  negative zero would print \<^verbatim>\<open>-0.000\<close>; it reads back as the same number).
\<close>

definition format_fixed :: "nat \<Rightarrow> real \<Rightarrow> string" where
  "format_fixed d x =
     (let k = rint (x * 10 ^ d); m = nat \<bar>k\<bar>
      in (if k < 0 then ''-'' else []) @ str_nat (m div 10 ^ d) @ ''.'' @
         zero_pad d (str_nat (m mod 10 ^ d)))"

definition format_3f :: "real \<Rightarrow> string" where
  "format_3f x = format_fixed 3 x"

text \<open>
  \<^verbatim>\<open>str(self.mpp)\<close> for the value \<^verbatim>\<open>np.around(..., 4)\<close> produced: the shortest decimal
  that reads back as the same float, which for a multiple of \<open>10\<^sup>-\<^sup>4\<close> below \<open>10\<^sup>1\<^sup>6\<close>
  is its decimal expansion without trailing zeros (one decimal at least); the non-finite
  values print as \<^verbatim>\<open>inf\<close>, \<^verbatim>\<open>-inf\<close> and \<^verbatim>\<open>nan\<close>.
\<close>

definition strip_trailing_zeros :: "string \<Rightarrow> string" where
  "strip_trailing_zeros s =
     (let t = rev (dropWhile (\<lambda>c. c = CHR ''0'') (rev s)) in if t = [] then ''0'' else t)"

fun str_float4 :: "np_float \<Rightarrow> string" where
  "str_float4 (Finite x) =
     (let k = rint (x * 10 ^ 4); m = nat \<bar>k\<bar>
      in (if k < 0 then ''-'' else []) @ str_nat (m div 10 ^ 4) @ ''.'' @
         strip_trailing_zeros (zero_pad 4 (str_nat (m mod 10 ^ 4))))"
| "str_float4 PosInf = ''inf''"
| "str_float4 NegInf = ''-inf''"
| "str_float4 NaN = ''nan''"

text \<open>
  The readers the program applies to the record's fields in \<^verbatim>\<open>App.stats\<close>:
  \<^verbatim>\<open>float(line['X'])\<close>, \<^verbatim>\<open>float(line['mpp'])\<close>, and comparison of \<^verbatim>\<open>line['tool']\<close>
  with \<^verbatim>\<open>str(index)\<close>. \<open>py_float\<close> covers the part of Python's \<^verbatim>\<open>float\<close> grammar
  that these encodings use: an optional minus sign, digits, optionally a point and more
  digits, and the three non-finite words. \<open>None\<close> stands for \<^verbatim>\<open>ValueError\<close>.
\<close>

definition is_digit :: "char \<Rightarrow> bool" where
  "is_digit c \<longleftrightarrow> 48 \<le> (of_char c :: nat) \<and> (of_char c :: nat) \<le> 57"

definition nat_of_digits :: "string \<Rightarrow> nat" where
  "nat_of_digits s = foldl (\<lambda>a c. 10 * a + (of_char c - 48)) 0 s"

definition all_digits :: "string \<Rightarrow> bool" where
  "all_digits s \<longleftrightarrow> s \<noteq> [] \<and> list_all is_digit s"

definition py_int :: "string \<Rightarrow> nat option" where
  "py_int s = (if all_digits s then Some (nat_of_digits s) else None)"

definition parse_decimal :: "string \<Rightarrow> real option" where
  "parse_decimal s =
     (let ip = takeWhile (\<lambda>c. c \<noteq> CHR ''.'') s;
          rest = dropWhile (\<lambda>c. c \<noteq> CHR ''.'') s
      in if rest = [] then (if all_digits ip then Some (real (nat_of_digits ip)) else None)
         else (let fp = tl rest
               in if all_digits ip \<and> all_digits fp
                  then Some (real (nat_of_digits ip) + real (nat_of_digits fp) / 10 ^ length fp)
                  else None))"

definition py_float :: "string \<Rightarrow> np_float option" where
  "py_float s =
     (if s = ''inf'' then Some PosInf
      else if s = ''-inf'' then Some NegInf
      else if s = ''nan'' then Some NaN
      else (case s of
              c # t \<Rightarrow> if c = CHR ''-'' then map_option (\<lambda>v. Finite (- v)) (parse_decimal t)
                       else map_option Finite (parse_decimal s)
            | [] \<Rightarrow> None))"

section \<open>The detection gate: \<^verbatim>\<open>CalibrateNozzles.analyzeFrame\<close> (lines 747-859)\<close>

text \<open>
  One iteration of the gate's loop reads one frame. Everything the iteration reads from
  outside is a field of \<open>frame\<close>: the value of \<^verbatim>\<open>self.detection_on\<close> at the loop test
  and again at the final \<^verbatim>\<open>if\<close> after the loop, the success flag of \<^verbatim>\<open>cap.read()\<close>,
  the printer's coordinates (\<open>None\<close> when \<^verbatim>\<open>getCoords\<close> raised), the frame's shape, the
  key points the blob detector found in the preprocessed image, and the millisecond clock
  \<^verbatim>\<open>int(round(time.time()*1000))\<close> as read in the branches for zero or several key
  points. Image processing and the pixmap signals are not modelled.
\<close>

record keypoint =
  pt :: "real \<times> real"
  size_kp :: real

record frame =
  on_at_test :: bool
  on_at_return :: bool
  ret :: bool
  coords :: "(real \<times> real) option"
  shape :: "nat \<times> nat"
  keypoints :: "keypoint list"
  clock :: int

record detection =
  det_xy :: pixel
  det_target :: "int \<times> int"
  det_tool_coordinates :: "(real \<times> real) option"
  det_radius :: real

text \<open>The texts sent with \<^verbatim>\<open>message_update\<close>, in the order of the source.\<close>

datatype gate_event =
    DetectionError
  | NoCircles
  | TooManyCircles nat
  | Position pixel real

text \<open>
  \<open>Detected\<close>: the tuple returned; \<open>Stopped\<close>: \<^verbatim>\<open>return\<close> without a value, because
  \<^verbatim>\<open>detection_on\<close> was cleared; \<open>GateRaised\<close>: an exception; \<open>Retrying\<close>: the frames
  given are used up and the loop is still running, with this value of \<^verbatim>\<open>nocircle\<close>.
\<close>

datatype gate_outcome =
    Detected detection
  | Stopped
  | GateRaised py_error
  | Retrying nat

text \<open>
  \<open>pixel_of\<close> is \<^verbatim>\<open>np.uint16(np.around(keypoints[0].pt))\<close>, the cast wrapping modulo
  \<open>2\<^sup>1\<^sup>6\<close>; \<open>target_of\<close> is the rounded frame centre, \<^verbatim>\<open>shape\<close> being
  \<open>(height, width)\<close>. The first argument of \<open>analyze_loop\<close> is \<^verbatim>\<open>self.alignment\<close>:
  the local \<^verbatim>\<open>toolCoordinates\<close> is assigned only when it is set, so the \<^verbatim>\<open>return\<close>
  of the tuple raises \<^verbatim>\<open>UnboundLocalError\<close> otherwise. The other arguments are the
  clock \<open>rd\<close> read at entry, the counter \<^verbatim>\<open>nocircle\<close>, the messages sent so far and
  the frames still to come; the result carries the frames left unread.
\<close>

definition pixel_of :: "keypoint \<Rightarrow> pixel" where
  "pixel_of k = (word_of_int (rint (fst (pt k))), word_of_int (rint (snd (pt k))))"

definition target_of :: "frame \<Rightarrow> int \<times> int" where
  "target_of f = (rint (real (snd (shape f)) / 2), rint (real (fst (shape f)) / 2))"

fun analyze_loop ::
  "bool \<Rightarrow> int \<Rightarrow> nat \<Rightarrow> gate_event list \<Rightarrow> frame list
     \<Rightarrow> gate_outcome \<times> gate_event list \<times> frame list" where
  "analyze_loop alignment rd nocircle ev [] = (Retrying nocircle, ev, [])"
| "analyze_loop alignment rd nocircle ev (f # fs) =
     (if \<not> on_at_test f then (Stopped, ev, f # fs)
      else if \<not> ret f then analyze_loop alignment rd nocircle ev fs
      else if nocircle > 25 then analyze_loop alignment rd 0 (ev @ [DetectionError]) fs
      else let num_keypoints = length (keypoints f) in
        if num_keypoints = 0 then
          (if 25 < clock f - rd
           then analyze_loop alignment rd (nocircle + 1) (ev @ [NoCircles]) fs
           else analyze_loop alignment rd nocircle ev fs)
        else if num_keypoints > 1 then
          (if 25 < clock f - rd
           then analyze_loop alignment rd nocircle (ev @ [TooManyCircles num_keypoints]) fs
           else analyze_loop alignment rd nocircle ev fs)
        else
          (let k = hd (keypoints f);
               centre = pixel_of k;
               r = around (size_kp k / 2) 0;
               ev' = ev @ [Position centre r]
           in if \<not> on_at_return f then (Stopped, ev', fs)
              else if \<not> alignment then (GateRaised UnboundLocalError, ev', fs)
              else (Detected \<lparr>det_xy = centre, det_target = target_of f,
                               det_tool_coordinates = coords f, det_radius = r\<rparr>, ev', fs)))"

text \<open>A call starts with \<^verbatim>\<open>nocircle = 0\<close> and \<open>rd\<close> the clock at entry.\<close>

definition analyzeFrame ::
  "bool \<Rightarrow> int \<Rightarrow> frame list \<Rightarrow> gate_outcome \<times> gate_event list \<times> frame list" where
  "analyzeFrame alignment rd frames = analyze_loop alignment rd 0 [] frames"

section \<open>The calibration loop: \<^verbatim>\<open>CalibrateNozzles.calibrateTool\<close> (lines 861-1052)\<close>

text \<open>
  The G-code sent to the printer, by shape: \<open>RelMove x y f\<close> is
  \<^verbatim>\<open>G91 G1 X.. Y.. F.. G90\<close>, \<open>AbsMove x y f\<close> is \<^verbatim>\<open>G90 G1 X.. Y.. F.. G90\<close>.
  Status texts, the debug string, the offsets table and the run-time stamps
  (\<^verbatim>\<open>time.time()\<close>, the \<^verbatim>\<open>'time'\<close> entry of the returned dictionary) are left out.
\<close>

datatype gcode =
    RelMove real real nat
  | AbsMove real real nat
  | M564_S1
  | G1_F13200

record tool_return =
  ret_X :: real
  ret_Y :: real
  ret_MPP :: np_float

type_synonym result_event = "(string \<times> string) list"

record calib_state =
  average_location :: "real \<times> real"
  detect_count :: nat
  state :: nat
  xy :: pixel
  oldxy :: pixel
  target :: "int \<times> int"
  tool_coordinates :: "(real \<times> real) option"
  radius :: real
  space_coordinates :: "(real \<times> real) list"
  camera_coordinates :: "pixel list"
  offsetX :: real
  offsetY :: real
  mpp :: np_float
  transform_matrix :: "(real \<times> real) list"
  transform_residual :: np_float
  guess_position :: "real \<times> real"
  calibration_moves :: nat
  offsets :: "real \<times> real"
  sent :: "gcode list"
  emitted :: "result_event list"

definition position_iterations :: nat where
  "position_iterations = 5"

definition calibrationCoordinates :: "(real \<times> real) list" where
  "calibrationCoordinates =
     [(0, -5/10), (294/1000, -405/1000), (476/1000, -155/1000), (476/1000, 155/1000),
      (294/1000, 405/1000), (0, 5/10), (-294/1000, 405/1000), (-476/1000, 155/1000),
      (-476/1000, -155/1000), (-294/1000, -405/1000)]"

text \<open>
  Lines 863-894. \<^verbatim>\<open>self.transform_matrix\<close> and \<^verbatim>\<open>self.mpp\<close> are attributes of the
  worker that survive from one call to the next, so they are arguments here; a matrix of
  more than one row sends the call straight to state 200.
\<close>

definition init_state :: "(real \<times> real) list \<Rightarrow> np_float \<Rightarrow> calib_state" where
  "init_state tm m =
     \<lparr>average_location = (0, 0), detect_count = 0,
      state = (if length tm > 1 then 200 else 0),
      xy = (0, 0), oldxy = (0, 0), target = (0, 0), tool_coordinates = None, radius = 0,
      space_coordinates = [], camera_coordinates = [], offsetX = 0, offsetY = 0,
      mpp = m, transform_matrix = tm, transform_residual = NaN, guess_position = (1, 1),
      calibration_moves = 0, offsets = (0, 0), sent = [], emitted = []\<rparr>"

text \<open>Lines 897 and 912: the tuple returned by the gate is stored.\<close>

definition store_detection :: "detection \<Rightarrow> calib_state \<Rightarrow> calib_state" where
  "store_detection d s =
     s\<lparr>xy := det_xy d, target := det_target d,
       tool_coordinates := det_tool_coordinates d, radius := det_radius d\<rparr>"

text \<open>Lines 899-902.\<close>

definition accumulate :: "calib_state \<Rightarrow> calib_state" where
  "accumulate s =
     s\<lparr>average_location := (fst (average_location s) + float_of (fst (xy s)),
                             snd (average_location s) + float_of (snd (xy s))),
       detect_count := detect_count s + 1\<rparr>"

text \<open>Lines 907-910.\<close>

definition take_average :: "calib_state \<Rightarrow> calib_state" where
  "take_average s =
     s\<lparr>average_location := (around (fst (average_location s) / real (detect_count s)) 3,
                             around (snd (average_location s) / real (detect_count s)) 3)\<rparr>"

text \<open>
  The outcome of the branch taken after the confirming detection: \<^verbatim>\<open>continue\<close> with
  the new attributes, or \<^verbatim>\<open>return(_return, self.transform_matrix, self.mpp)\<close>.
\<close>

datatype step_result =
    Continue calib_state
  | Return "tool_return \<times> (real \<times> real) list \<times> np_float" calib_state

text \<open>State 0, lines 915-935.\<close>

definition camera_calibration_start :: "calib_state \<Rightarrow> py_error + step_result" where
  "camera_calibration_start s =
     (case tool_coordinates s of
        None \<Rightarrow> Inl TypeError
      | Some tc \<Rightarrow>
          (let ox = fst (calibrationCoordinates ! 0); oy = snd (calibrationCoordinates ! 0)
           in Inr (Continue
                (s\<lparr>oldxy := xy s,
                   space_coordinates := [tc],
                   camera_coordinates := [xy s],
                   offsetX := ox, offsetY := oy,
                   sent := sent s @ [RelMove ox oy 3000],
                   state := 1\<rparr>))))"

text \<open>States 1 to 9, lines 937-960.\<close>

definition camera_calibration_move :: "calib_state \<Rightarrow> py_error + step_result" where
  "camera_calibration_move s =
     (let s1 = (if state s = 1 then s\<lparr>mpp := calibrate_mpp (oldxy s) (xy s)\<rparr> else s)
      in case tool_coordinates s of
           None \<Rightarrow> Inl TypeError
         | Some tc \<Rightarrow>
             (let bx = -1 * offsetX s; by = -1 * offsetY s;
                  ox = fst (calibrationCoordinates ! state s);
                  oy = snd (calibrationCoordinates ! state s)
              in Inr (Continue
                   (s1\<lparr>oldxy := xy s,
                       space_coordinates := space_coordinates s @ [tc],
                       camera_coordinates := camera_coordinates s @ [xy s],
                       offsetX := ox, offsetY := oy,
                       sent := sent s @ [RelMove bx by 3000, RelMove ox oy 3000],
                       state := state s + 1\<rparr>))))"

text \<open>
  State 10, lines 962-990. \<open>transform_input\<close> pairs \<^verbatim>\<open>space_coordinates[i]\<close> with the
  normalised \<open>i\<close>-th camera coordinate.
\<close>

definition transform_input ::
  "calib_env \<Rightarrow> (real \<times> real) list \<Rightarrow> pixel list \<Rightarrow> calibration_point list" where
  "transform_input env space camera =
     map (\<lambda>(i, c). (space ! i, normalize_coords env c)) (enumerate 0 camera)"

definition camera_calibration_solve :: "calib_env \<Rightarrow> calib_state \<Rightarrow> py_error + step_result" where
  "camera_calibration_solve env s =
     (case tool_coordinates s of
        None \<Rightarrow> Inl TypeError
      | Some tc \<Rightarrow>
          (let space = space_coordinates s @ [tc];
               camera = camera_coordinates s @ [xy s]
           in if length space < length camera then Inl IndexError
              else case least_square_mapping env (transform_input env space camera) of
                     Inl e \<Rightarrow> Inl e
                   | Inr (tm, res) \<Rightarrow>
                       if length tm \<noteq> 6 then Inl ValueError
                       else (let newCenter = matT_vec tm [0, 0, 0, 0, 0, 1];
                                 guess = (around (fst newCenter) 3, around (snd newCenter) 3)
                             in Inr (Continue
                                  (s\<lparr>oldxy := xy s,
                                     space_coordinates := space,
                                     camera_coordinates := camera,
                                     transform_matrix := tm,
                                     transform_residual := res,
                                     guess_position := guess,
                                     sent := sent s @ [AbsMove (fst guess) (snd guess) 1000],
                                     state := 200\<rparr>)))))"

text \<open>
  State 200, lines 992-1049. The feature vector and the damped offset of lines 999-1003
  are functions of their own, so that theorems can speak about them.
\<close>

definition feature_vector :: "real \<times> real \<Rightarrow> real list" where
  "feature_vector c = (let cx = fst c; cy = snd c in [cx ^ 2, cy ^ 2, cx * cy, cx, cy, 0])"

definition alignment_offsets :: "calib_env \<Rightarrow> (real \<times> real) list \<Rightarrow> pixel \<Rightarrow> real \<times> real" where
  "alignment_offsets env tm p =
     (let v = feature_vector (normalize_coords env p);
          raw = matT_vec (mat_scale (55/100) tm) v
      in (around (-1 * fst raw) 3, around (-1 * snd raw) 3))"

definition result_record :: "nat \<Rightarrow> nat \<Rightarrow> np_float \<Rightarrow> real \<Rightarrow> real \<Rightarrow> result_event" where
  "result_record tool rep m final_x final_y =
     [(''tool'', str_nat tool), (''cycle'', str_nat rep), (''mpp'', str_float4 m),
      (''X'', format_3f final_x), (''Y'', format_3f final_y)]"

definition nozzle_alignment ::
  "calib_env \<Rightarrow> nat \<Rightarrow> nat \<Rightarrow> calib_state \<Rightarrow> py_error + step_result" where
  "nozzle_alignment env tool rep s =
     (if length (transform_matrix s) \<noteq> 6 then Inl ValueError
      else
        (let offs = alignment_offsets env (transform_matrix s) (xy s);
             s1 = s\<lparr>calibration_moves := calibration_moves s + 1,
                    offsets := offs,
                    sent := sent s @ [M564_S1, RelMove (fst offs) (snd offs) 1000],
                    oldxy := xy s\<rparr>
         in if fst offs = 0 \<and> snd offs = 0 then
              (let tool_offsets = getG10ToolOffset env tool
               in case tool_coordinates s of
                    None \<Rightarrow> Inl TypeError
                  | Some tc \<Rightarrow>
                      (let final_x = around ((fst (cp_coords env) + fst tool_offsets) - fst tc) 3;
                           final_y = around ((snd (cp_coords env) + snd tool_offsets) - snd tc) 3
                       in Inr (Return
                            (\<lparr>ret_X = final_x, ret_Y = final_y, ret_MPP = mpp s\<rparr>,
                             transform_matrix s, mpp s)
                            (s1\<lparr>sent := sent s1 @ [G1_F13200, G1_F13200],
                                emitted := emitted s @
                                  [result_record tool rep (mpp s) final_x final_y]\<rparr>))))
            else Inr (Continue (s1\<lparr>state := 200\<rparr>))))"

text \<open>
  The \<^verbatim>\<open>if\<close>/\<^verbatim>\<open>elif\<close> chain of lines 915-1049. A state matched by no branch falls
  through to lines 1050-1052, which store into \<^verbatim>\<open>self.avg\<close>, \<^verbatim>\<open>self.location\<close> and
  \<^verbatim>\<open>self.count\<close>: attributes nothing else reads, so the state is returned unchanged.
\<close>

definition process_state ::
  "calib_env \<Rightarrow> nat \<Rightarrow> nat \<Rightarrow> calib_state \<Rightarrow> py_error + step_result" where
  "process_state env tool rep s =
     (if state s = 0 then camera_calibration_start s
      else if state s \<ge> 1 \<and> state s < length calibrationCoordinates
        then camera_calibration_move s
      else if state s = length calibrationCoordinates then camera_calibration_solve env s
      else if state s = 200 then nozzle_alignment env tool rep s
      else Inr (Continue s))"

text \<open>
  The \<^verbatim>\<open>while True\<close> loop of lines 896-1052 over the results of the successive calls
  of the gate (\<open>None\<close>: the gate returned no tuple, and unpacking it raises).
  \<open>AwaitingFrame\<close>: the results given are used up and the loop is inside the next call
  of the gate.
\<close>

datatype outcome =
    Returned "tool_return \<times> (real \<times> real) list \<times> np_float" calib_state
  | Raised py_error
  | AwaitingFrame calib_state

fun calibrate_loop ::
  "calib_env \<Rightarrow> nat \<Rightarrow> nat \<Rightarrow> calib_state \<Rightarrow> detection option list \<Rightarrow> outcome" where
  "calibrate_loop env tool rep s [] = AwaitingFrame s"
| "calibrate_loop env tool rep s (None # ds) = Raised TypeError"
| "calibrate_loop env tool rep s (Some d # ds) =
     (let s1 = accumulate (store_detection d s)
      in if detect_count s1 \<ge> position_iterations then
           (let s2 = take_average s1
            in case ds of
                 [] \<Rightarrow> AwaitingFrame s2
               | None # ds' \<Rightarrow> Raised TypeError
               | Some d' # ds' \<Rightarrow>
                   (case process_state env tool rep (store_detection d' s2) of
                      Inl e \<Rightarrow> Raised e
                    | Inr (Return r s') \<Rightarrow> Returned r s'
                    | Inr (Continue s') \<Rightarrow> calibrate_loop env tool rep s' ds'))
         else calibrate_loop env tool rep s1 ds)"

definition calibrateTool ::
  "calib_env \<Rightarrow> (real \<times> real) list \<Rightarrow> np_float \<Rightarrow> nat \<Rightarrow> nat \<Rightarrow> detection option list \<Rightarrow> outcome" where
  "calibrateTool env tm m tool rep ds = calibrate_loop env tool rep (init_state tm m) ds"

section \<open>A sample configuration\<close>

text \<open>
  The default 640 by 480 frame, the controlled point \<open>(100, 100)\<close>, no stored tool
  offset, and a transform whose linear part is ten millimetres per normalised unit on
  each axis. In \<open>centred_state\<close> the confirming detection is at the frame centre and the
  printer reports the tool at \<open>(98.5, 101.2)\<close>; in \<open>off_centre_state\<close> the detection is
  ten pixels off on each axis.
\<close>

definition sample_env :: calib_env where
  "sample_env =
     \<lparr>camera_width = 640, camera_height = 480, cp_coords = (100, 100),
      getG10ToolOffset = (\<lambda>t. (0, 0)), lstsq = (\<lambda>A B. Inl LinAlgError)\<rparr>"

definition sample_matrix :: "(real \<times> real) list" where
  "sample_matrix = [(0, 0), (0, 0), (0, 0), (10, 0), (0, 10), (100, 100)]"

definition centred_state :: calib_state where
  "centred_state =
     (init_state sample_matrix (Finite (1/10)))
       \<lparr>xy := (320, 240), tool_coordinates := Some (985/10, 1012/10)\<rparr>"

definition off_centre_state :: calib_state where
  "off_centre_state =
     (init_state sample_matrix (Finite (1/10)))
       \<lparr>xy := (330, 250), tool_coordinates := Some (985/10, 1012/10)\<rparr>"

text \<open>
  Frames for the gate: one in which the detector finds nothing, and one with a single
  blob at \<open>(320.4, 239.6)\<close> of diameter 21, both read successfully with detection on.
\<close>

definition miss_frame :: "int \<Rightarrow> frame" where
  "miss_frame t =
     \<lparr>on_at_test = True, on_at_return = True, ret = True, coords = Some (100, 100),
      shape = (480, 640), keypoints = [], clock = t\<rparr>"

definition single_frame :: "int \<Rightarrow> frame" where
  "single_frame t =
     \<lparr>on_at_test = True, on_at_return = True, ret = True, coords = Some (100, 100),
      shape = (480, 640), keypoints = [\<lparr>pt = (1602/5, 1198/5), size_kp = 21\<rparr>], clock = t\<rparr>"

text \<open>
  Results of the gate for the calibration loop: a detection at a given pixel, with the
  printer at \<open>(100, 100)\<close>.
\<close>

definition det_at :: "16 word \<Rightarrow> 16 word \<Rightarrow> detection" where
  "det_at x y = \<lparr>det_xy = (x, y), det_target = (320, 240),
                 det_tool_coordinates = Some (100, 100), det_radius = 10\<rparr>"

text \<open>
  Eight results: five at \<open>(100, 100)\<close>, then \<open>(200, 200)\<close>, \<open>(300, 300)\<close> and
  \<open>(203, 204)\<close>.
\<close>

definition jitter_detections :: "detection option list" where
  "jitter_detections =
     [Some (det_at 100 100), Some (det_at 100 100), Some (det_at 100 100),
      Some (det_at 100 100), Some (det_at 100 100), Some (det_at 200 200),
      Some (det_at 300 300), Some (det_at 203 204)]"

text \<open>
  Twenty-six results, enough for a whole camera calibration, and an environment whose
  \<open>lstsq\<close> answers with the number of rows it was given in every entry of the solution.
\<close>

definition sweep_detections :: "detection option list" where
  "sweep_detections =
     [Some (det_at 100 100), Some (det_at 100 100), Some (det_at 100 100),
      Some (det_at 100 100), Some (det_at 100 100), Some (det_at 200 200),
      Some (det_at 203 204), Some (det_at 203 204),
      Some (det_at 210 220), Some (det_at 210 220),
      Some (det_at 220 230), Some (det_at 220 230),
      Some (det_at 230 240), Some (det_at 230 240),
      Some (det_at 240 250), Some (det_at 240 250),
      Some (det_at 250 260), Some (det_at 250 260),
      Some (det_at 260 250), Some (det_at 260 250),
      Some (det_at 270 240), Some (det_at 270 240),
      Some (det_at 280 230), Some (det_at 280 230),
      Some (det_at 290 220), Some (det_at 290 220)]"

definition counting_env :: calib_env where
  "counting_env =
     \<lparr>camera_width = 640, camera_height = 480, cp_coords = (100, 100),
      getG10ToolOffset = (\<lambda>t. (0, 0)),
      lstsq = (\<lambda>A B. Inr \<lparr>solution = replicate 6 (real (length A), real (length B)),
                            residuals = [], rank = 0, singular_values = []\<rparr>)\<rparr>"

text \<open>
  What the camera calibration has stored, by state: nothing is known in state 0 (the
  lists are reset there); in states 1 to 10 the two lists hold as many samples as the
  state says; in state 200 reached through the calibration they hold eleven, and the
  transform is the solver's answer for exactly those.
\<close>

definition sweep_inv :: "calib_env \<Rightarrow> calib_state \<Rightarrow> bool" where
  "sweep_inv env s \<longleftrightarrow>
     state s = 0 \<or>
     (1 \<le> state s \<and> state s \<le> 10 \<and>
        length (camera_coordinates s) = state s \<and> length (space_coordinates s) = state s) \<or>
     (state s = 200 \<and>
        length (camera_coordinates s) = 11 \<and> length (space_coordinates s) = 11 \<and>
        least_square_mapping env (transform_input env (space_coordinates s) (camera_coordinates s))
          = Inr (transform_matrix s, transform_residual s))"

text \<open>An environment whose \<open>lstsq\<close> answers with \<open>sample_matrix\<close>.\<close>

definition fixed_env :: calib_env where
  "fixed_env =
     \<lparr>camera_width = 640, camera_height = 480, cp_coords = (100, 100),
      getG10ToolOffset = (\<lambda>t. (0, 0)),
      lstsq = (\<lambda>A B. Inr \<lparr>solution = sample_matrix,
                            residuals = [], rank = 0, singular_values = []\<rparr>)\<rparr>"

text \<open>
  Ten noise-free samples of a quadratic transform, with the normalised pixel coordinates
  spread over the frame, and an environment whose \<open>lstsq\<close> returns that transform with
  zero residuals.
\<close>

definition quadratic_transform :: "(real \<times> real) list" where
  "quadratic_transform = [(1, 0), (0, 1), (1/2, 1/2), (10, 0), (0, 10), (100, 100)]"

definition noise_free_points :: "(real \<times> real) list" where
  "noise_free_points =
     [(0, 0), (1/2, 0), (-1/2, 0), (0, 1/2), (0, -1/2), (1/2, 1/2),
      (-1/2, -1/2), (1/2, -1/2), (-1/2, 1/2), (1/4, 1/4)]"

definition noise_free_samples :: "calibration_point list" where
  "noise_free_samples = map (\<lambda>p. (matT_vec quadratic_transform (design_row p), p)) noise_free_points"

definition exact_env :: calib_env where
  "exact_env =
     \<lparr>camera_width = 640, camera_height = 480, cp_coords = (100, 100),
      getG10ToolOffset = (\<lambda>t. (0, 0)),
      lstsq = (\<lambda>A B. Inr \<lparr>solution = quadratic_transform, residuals = [0, 0], rank = 6,
                            singular_values = []\<rparr>)\<rparr>"

text \<open>
  Degenerate inputs. \<open>repeated_samples\<close>: ten samples at the frame centre, which the
  transform \<open>hidden_transform\<close> (a pure \<open>x\<^sup>2\<close> term) maps to the machine origin.
  \<open>collinear_state\<close>: state 10 of the calibration with ten stored detections on the
  horizontal line through the frame centre, an eleventh arriving, and the printer reporting
  the origin every time; \<open>collinear_samples\<close> is the solver's input in that state.
  \<open>zero_result\<close> is what \<open>lstsq\<close> answers for a rank-deficient matrix and a zero
  right-hand side: the zero solution and no residuals.
\<close>

definition zero_result :: lstsq_result where
  "zero_result = \<lparr>solution = replicate 6 (0, 0), residuals = [], rank = 1, singular_values = []\<rparr>"

definition zero_env :: calib_env where
  "zero_env =
     \<lparr>camera_width = 640, camera_height = 480, cp_coords = (100, 100),
      getG10ToolOffset = (\<lambda>t. (0, 0)), lstsq = (\<lambda>A B. Inr zero_result)\<rparr>"

definition hidden_transform :: "(real \<times> real) list" where
  "hidden_transform = [(1, 0), (0, 0), (0, 0), (0, 0), (0, 0), (0, 0)]"

definition repeated_samples :: "calibration_point list" where
  "repeated_samples = replicate 10 ((0, 0), (0, 0))"

definition collinear_state :: calib_state where
  "collinear_state =
     (init_state [] NaN)
       \<lparr>state := 10,
        camera_coordinates := [(0, 240), (64, 240), (128, 240), (192, 240), (256, 240),
                               (320, 240), (384, 240), (448, 240), (512, 240), (576, 240)],
        space_coordinates := [(0, 0), (0, 0), (0, 0), (0, 0), (0, 0),
                              (0, 0), (0, 0), (0, 0), (0, 0), (0, 0)],
        xy := (640, 240), tool_coordinates := Some (0, 0)\<rparr>"

definition collinear_samples :: "calibration_point list" where
  "collinear_samples =
     map (\<lambda>x. ((0, 0), (x, 0)))
       [-1/2, -2/5, -3/10, -1/5, -1/10, 0, 1/10, 1/5, 3/10, 2/5, 1/2]"

section \<open>Rounding lemmas\<close>

lemma rint_eqI:
  assumes "of_int k - 1/2 < x" and "x < of_int k + 1/2"
  shows "rint x = k"
proof -
  have "\<lfloor>x\<rfloor> = k \<or> \<lfloor>x\<rfloor> = k - 1"
    using assms by linarith
  then show ?thesis
  proof
    assume f: "\<lfloor>x\<rfloor> = k"
    then have "x - of_int \<lfloor>x\<rfloor> < 1/2" using assms by simp
    then show ?thesis using f by (simp add: rint_def Let_def)
  next
    assume f: "\<lfloor>x\<rfloor> = k - 1"
    then have "1/2 < x - of_int \<lfloor>x\<rfloor>" using assms by simp
    then show ?thesis using f by (simp add: rint_def Let_def)
  qed
qed

lemma rint_of_int [simp]: "rint (of_int k) = k"
  by (rule rint_eqI) simp_all

lemma rint_ge:
  assumes "of_int k \<le> x"
  shows "k \<le> rint x"
proof -
  have "k \<le> \<lfloor>x\<rfloor>" using assms by (simp add: le_floor_iff)
  moreover have "\<lfloor>x\<rfloor> \<le> rint x" by (simp add: rint_def Let_def)
  ultimately show ?thesis by linarith
qed

lemma around_of_int [simp]: "around (of_int k) d = of_int k"
proof -
  have "rint (of_int k * 10 ^ d) = k * 10 ^ d"
    using rint_of_int [of "k * 10 ^ d"] by simp
  then show ?thesis by (simp add: around_def)
qed

lemma around_zero [simp]: "around 0 d = 0"
  using around_of_int [of 0 d] by simp

lemma around_pos_of_ge_one:
  assumes "1 \<le> x"
  shows "1 \<le> around x d"
proof -
  have "of_int (10 ^ d) \<le> x * 10 ^ d" using assms by simp
  then have "10 ^ d \<le> rint (x * 10 ^ d)" by (rule rint_ge)
  then have "(10::real) ^ d \<le> of_int (rint (x * 10 ^ d))"
    by (metis of_int_le_iff of_int_numeral of_int_power)
  then show ?thesis by (simp add: around_def pos_le_divide_eq)
qed

section \<open>Distance and mpp\<close>

lemma sq_diff_int_ge_one:
  assumes "a \<noteq> b"
  shows "1 \<le> (float_of a - float_of b) ^ 2"
proof -
  have "int (unat a) \<noteq> int (unat b)"
    using assms by (simp add: word_uint_eq_iff)
  then have "1 \<le> (int (unat a) - int (unat b)) ^ 2"
    by (smt (verit) one_le_power power2_minus)
  then have "(1::real) \<le> of_int ((int (unat a) - int (unat b)) ^ 2)"
    by linarith
  then show ?thesis by (simp add: float_of_def)
qed

lemma euclid_ge_one:
  assumes "p0 \<noteq> p1"
  shows "1 \<le> euclidean_distance p0 p1"
proof -
  have "fst p0 \<noteq> fst p1 \<or> snd p0 \<noteq> snd p1"
    using assms by (auto simp: prod_eq_iff)
  then have "1 \<le> (float_of (fst p0) - float_of (fst p1)) ^ 2
               + (float_of (snd p0) - float_of (snd p1)) ^ 2"
  proof
    assume "fst p0 \<noteq> fst p1"
    from sq_diff_int_ge_one [OF this]
    show ?thesis by (smt (verit) zero_le_power2)
  next
    assume "snd p0 \<noteq> snd p1"
    from sq_diff_int_ge_one [OF this]
    show ?thesis by (smt (verit) zero_le_power2)
  qed
  then have "sqrt 1 \<le> euclidean_distance p0 p1"
    unfolding euclidean_distance_def by (rule real_sqrt_le_mono)
  then show ?thesis by simp
qed

lemma getDistance_euclid:
  "getDistance (fst p0) (snd p0) (fst p1) (snd p1) = around (euclidean_distance p0 p1) 3"
  by (simp add: getDistance_def euclidean_distance_def Let_def)

lemma getDistance_same: "getDistance x y x y = 0"
  by (simp add: getDistance_def Let_def)

lemma getDistance_ge_one:
  assumes "p0 \<noteq> p1"
  shows "1 \<le> getDistance (fst p0) (snd p0) (fst p1) (snd p1)"
  unfolding getDistance_euclid
  by (rule around_pos_of_ge_one) (rule euclid_ge_one [OF assms])

lemma np_truediv_half: "np_truediv (1/2) b = (if b = 0 then PosInf else Finite ((1/2) / b))"
  by (simp add: np_truediv_def)

lemma first_move_sets_mpp:
  assumes "state s = 1" and "tool_coordinates s = Some tc"
  shows "\<exists>s'. process_state env tool rep s = Inr (Continue s') \<and>
           mpp s' = calibrate_mpp (oldxy s) (xy s)"
  using assms
  by (simp add: process_state_def calibrationCoordinates_def camera_calibration_move_def Let_def)

text \<open>
  C10. The divisor of the mpp computation is the rounded distance, and nothing checks it:
  it is zero exactly when the two detections coincide, and exactly then the division is a
  division by zero (NumPy's \<^verbatim>\<open>inf\<close>, no exception); the result is a finite number
  exactly when the detections differ. The case is reachable: in state 1, when the
  confirming detection equals the previous one, the step stores \<^verbatim>\<open>inf\<close> as mpp and the
  calibration goes on.
\<close>

theorem mpp_division_by_zero_iff:
  "(getDistance (fst p0) (snd p0) (fst p1) (snd p1) = 0 \<longleftrightarrow> p0 = p1) \<and>
   (calibrate_mpp p0 p1 = PosInf \<longleftrightarrow> p0 = p1) \<and>
   ((\<exists>m. calibrate_mpp p0 p1 = Finite m) \<longleftrightarrow> p0 \<noteq> p1) \<and>
   (state s = 1 \<and> tool_coordinates s = Some tc \<and> oldxy s = xy s \<longrightarrow>
      (\<exists>s'. process_state env tool rep s = Inr (Continue s') \<and> mpp s' = PosInf))"
proof -
  have d: "getDistance (fst p0) (snd p0) (fst p1) (snd p1) = 0 \<longleftrightarrow> p0 = p1"
  proof
    assume z: "getDistance (fst p0) (snd p0) (fst p1) (snd p1) = 0"
    show "p0 = p1"
    proof (rule ccontr)
      assume "p0 \<noteq> p1"
      from getDistance_ge_one [OF this] z show False by simp
    qed
  next
    assume "p0 = p1"
    then show "getDistance (fst p0) (snd p0) (fst p1) (snd p1) = 0"
      by (simp add: getDistance_same)
  qed
  have i: "calibrate_mpp p0 p1 = PosInf \<longleftrightarrow> p0 = p1"
    using d by (simp add: calibrate_mpp_def np_truediv_half)
  have f: "(\<exists>m. calibrate_mpp p0 p1 = Finite m) \<longleftrightarrow> p0 \<noteq> p1"
    using d by (simp add: calibrate_mpp_def np_truediv_half)
  have same: "calibrate_mpp q q = PosInf" for q
    by (simp add: calibrate_mpp_def getDistance_same np_truediv_half)
  have r: "state s = 1 \<and> tool_coordinates s = Some tc \<and> oldxy s = xy s \<longrightarrow>
      (\<exists>s'. process_state env tool rep s = Inr (Continue s') \<and> mpp s' = PosInf)"
  proof
    assume a: "state s = 1 \<and> tool_coordinates s = Some tc \<and> oldxy s = xy s"
    then obtain s' where "process_state env tool rep s = Inr (Continue s')"
      and "mpp s' = calibrate_mpp (oldxy s) (xy s)"
      using first_move_sets_mpp [of s tc env tool rep] by blast
    with a same [of "xy s"] show "\<exists>s'. process_state env tool rep s = Inr (Continue s') \<and> mpp s' = PosInf"
      by auto
  qed
  from d i f r show ?thesis by blast
qed

text \<open>
  Two equal detections at \<open>(100, 100)\<close>, and state 1 of a calibration whose previous
  and confirming detections are both at the frame origin.
\<close>

theorem mpp_division_by_zero_witness:
  "calibrate_mpp (100, 100) (100, 100) = PosInf \<and>
   getDistance 100 100 100 100 = 0 \<and>
   (\<exists>s'. process_state sample_env 0 0
            ((init_state [] NaN)\<lparr>state := 1, tool_coordinates := Some (100, 100)\<rparr>)
          = Inr (Continue s') \<and> mpp s' = PosInf)"
  using mpp_division_by_zero_iff [of "(100, 100)" "(100, 100)"
      "(init_state [] NaN)\<lparr>state := 1, tool_coordinates := Some (100, 100)\<rparr>"
      "(100, 100)" sample_env 0 0]
  by (simp add: init_state_def)

subsection \<open>The distance is rounded before the division\<close>

lemma sqrt18_bounds: "42425/10000 < sqrt 18" "sqrt 18 < 424265/100000"
  by (rule real_less_rsqrt, simp add: power2_eq_square)
     (rule real_less_lsqrt, simp_all add: power2_eq_square)

lemma euclid_3_3: "euclidean_distance (100, 100) (103, 103) = sqrt 18"
  by (simp add: euclidean_distance_def float_of_def)

lemma rint_1000_sqrt18: "rint (sqrt 18 * 1000) = 4243"
  by (rule rint_eqI) (use sqrt18_bounds in simp_all)

lemma rint_5000_over_sqrt18: "rint (5000 / sqrt 18) = 1179"
proof (rule rint_eqI)
  have p: "0 < sqrt 18" by simp
  have "sqrt 18 * 2357 < 10000" using sqrt18_bounds by linarith
  then show "of_int 1179 - 1/2 < 5000 / sqrt 18"
    using p by (simp add: field_simps)
  have "10000 < sqrt 18 * 2359" using sqrt18_bounds by linarith
  then show "5000 / sqrt 18 < of_int 1179 + 1/2"
    using p by (simp add: field_simps)
qed

text \<open>
  C8, as stated, fails: for detections at \<open>(100, 100)\<close> and \<open>(103, 103)\<close> the distance
  \<open>\<surd>18 = 4.2426...\<close> is rounded to \<open>4.243\<close> first, and \<open>0.5 / 4.243\<close> rounds to
  \<open>0.1178\<close>, whereas \<open>0.5 / \<surd>18\<close> rounds to \<open>0.1179\<close>.
\<close>

theorem mpp_exact_distance_counterexample:
  "calibrate_mpp (100, 100) (103, 103) = Finite (1178/10000) \<and>
   spec_mpp_exact (100, 100) (103, 103) = 1179/10000"
proof
  have gd: "getDistance 100 100 103 103 = 4243/1000"
    using getDistance_euclid [of "(100, 100)" "(103, 103)"]
    by (simp add: euclid_3_3 around_def rint_1000_sqrt18)
  show "calibrate_mpp (100, 100) (103, 103) = Finite (1178/10000)"
    unfolding calibrate_mpp_def fst_conv snd_conv gd
    by (simp add: np_truediv_def around_def rint_def Let_def)
  show "spec_mpp_exact (100, 100) (103, 103) = 1179/10000"
    by (simp add: spec_mpp_exact_def euclid_3_3 around_def rint_5000_over_sqrt18)
qed

text \<open>
  C8, amended: for two different detections, mpp is \<open>0.5\<close> divided by the Euclidean
  pixel distance rounded to three decimals, the quotient rounded to four decimals; this
  is the value the step in state 1 (after the first calibration move) stores, computed
  from the previous confirming detection and the present one.
\<close>

theorem mpp_rounded_distance:
  assumes "p0 \<noteq> p1"
  shows "calibrate_mpp p0 p1 = Finite (around ((1/2) / around (euclidean_distance p0 p1) 3) 4) \<and>
         (state s = 1 \<and> tool_coordinates s = Some tc \<and> oldxy s = p0 \<and> xy s = p1 \<longrightarrow>
            (\<exists>s'. process_state env tool rep s = Inr (Continue s') \<and>
               mpp s' = Finite (around ((1/2) / around (euclidean_distance p0 p1) 3) 4)))"
proof -
  have "1 \<le> around (euclidean_distance p0 p1) 3"
    by (rule around_pos_of_ge_one) (rule euclid_ge_one [OF assms])
  then have "around (euclidean_distance p0 p1) 3 \<noteq> 0" by simp
  then have m: "calibrate_mpp p0 p1 =
      Finite (around ((1/2) / around (euclidean_distance p0 p1) 3) 4)"
    by (simp add: calibrate_mpp_def getDistance_euclid np_truediv_def)
  have "state s = 1 \<and> tool_coordinates s = Some tc \<and> oldxy s = p0 \<and> xy s = p1 \<longrightarrow>
      (\<exists>s'. process_state env tool rep s = Inr (Continue s') \<and> mpp s' = calibrate_mpp p0 p1)"
    using first_move_sets_mpp [of s tc env tool rep] by auto
  with m show ?thesis by simp
qed

lemma euclid_3_4: "euclidean_distance (100, 100) (103, 104) = 5"
proof -
  have "euclidean_distance (100, 100) (103, 104) = sqrt (5 ^ 2)"
    by (simp add: euclidean_distance_def float_of_def)
  then show ?thesis by simp
qed

theorem mpp_rounded_distance_witness:
  "((100, 100) :: pixel) \<noteq> (103, 104) \<and> calibrate_mpp (100, 100) (103, 104) = Finite (1/10) \<and>
   (\<exists>s'. process_state sample_env 0 0
            ((init_state [] NaN)\<lparr>state := 1, tool_coordinates := Some (100, 100),
                                  oldxy := (100, 100), xy := (103, 104)\<rparr>)
          = Inr (Continue s') \<and> mpp s' = Finite (1/10))"
proof -
  have ne: "((100, 100) :: pixel) \<noteq> (103, 104)" by simp
  have a: "around 5 3 = 5" "around (1/10) 4 = 1/10"
    by (simp_all add: around_def rint_def Let_def)
  from mpp_rounded_distance [OF ne,
      of "(init_state [] NaN)\<lparr>state := 1, tool_coordinates := Some (100, 100),
                                oldxy := (100, 100), xy := (103, 104)\<rparr>"
         "(100, 100)" sample_env 0 0]
  show ?thesis
    using ne by (simp add: euclid_3_4 a init_state_def)
qed

section \<open>The convergence step\<close>

lemma dot_Nil [simp]: "dot [] v = 0" "dot u [] = 0"
  by (simp_all add: dot_def)

lemma dot_Cons [simp]: "dot (a # u) (b # v) = a * b + dot u v"
  by (simp add: dot_def)

lemma dot_scale: "dot (map ((*) c) u) v = c * dot u v"
proof (induction u arbitrary: v)
  case Nil
  then show ?case by simp
next
  case (Cons a u)
  then show ?case by (cases v) (simp_all add: algebra_simps)
qed

lemma map_fst_mat_scale: "map fst (mat_scale c T) = map ((*) c) (map fst T)"
  by (induction T) (auto simp: mat_scale_def)

lemma map_snd_mat_scale: "map snd (mat_scale c T) = map ((*) c) (map snd T)"
  by (induction T) (auto simp: mat_scale_def)

lemma matT_vec_scale:
  "matT_vec (mat_scale c T) v = (c * dot (map fst T) v, c * dot (map snd T) v)"
  unfolding matT_vec_def by (simp only: map_fst_mat_scale map_snd_mat_scale dot_scale)

lemma alignment_offsets_formula:
  "alignment_offsets env T p =
     (let x = float_of (fst p) / real_of_int (camera_width env) - 1/2;
          y = float_of (snd p) / real_of_int (camera_height env) - 1/2;
          v = [x ^ 2, y ^ 2, x * y, x, y, 0]
      in (around (- (55/100) * dot (map fst T) v) 3,
          around (- (55/100) * dot (map snd T) v) 3))"
proof -
  have m: "- 1 * (c * d) = - c * d" for c d :: real by simp
  show ?thesis
    unfolding alignment_offsets_def feature_vector_def normalize_coords_def Let_def
      matT_vec_scale fst_conv snd_conv m ..
qed

lemma process_state_200:
  "state s = 200 \<Longrightarrow> process_state env tool rep s = nozzle_alignment env tool rep s"
  by (simp add: process_state_def calibrationCoordinates_def)

text \<open>
  C1. In state 200, for a frame of positive width \<open>w\<close> and height \<open>h\<close>, with a
  six-row transform and a recorded tool position, the offset is
  \<open>-0.55 \<cdot> T\<^sup>t \<cdot> v\<close> for \<open>v = [x\<^sup>2, y\<^sup>2, xy, x, y, 0]\<close> and \<open>x = px/w - 0.5\<close>,
  \<open>y = py/h - 0.5\<close>, each axis rounded to three decimals; the step returns exactly when
  the rounded offset is \<open>(0, 0)\<close>, and otherwise it sends the relative move and stays in
  state 200.
\<close>

theorem convergence_step:
  assumes "state s = 200" and "length (transform_matrix s) = 6"
    and "tool_coordinates s = Some tc"
    and "0 < camera_width env" and "0 < camera_height env"
  shows "alignment_offsets env (transform_matrix s) (xy s) =
           (let x = float_of (fst (xy s)) / real_of_int (camera_width env) - 1/2;
                y = float_of (snd (xy s)) / real_of_int (camera_height env) - 1/2;
                v = [x ^ 2, y ^ 2, x * y, x, y, 0]
            in (around (- (55/100) * dot (map fst (transform_matrix s)) v) 3,
                around (- (55/100) * dot (map snd (transform_matrix s)) v) 3)) \<and>
         ((\<exists>r s'. process_state env tool rep s = Inr (Return r s')) \<longleftrightarrow>
            alignment_offsets env (transform_matrix s) (xy s) = (0, 0)) \<and>
         (alignment_offsets env (transform_matrix s) (xy s) \<noteq> (0, 0) \<longrightarrow>
            (\<exists>s'. process_state env tool rep s = Inr (Continue s') \<and> state s' = 200 \<and>
               sent s' = sent s @ [M564_S1,
                 RelMove (fst (alignment_offsets env (transform_matrix s) (xy s)))
                         (snd (alignment_offsets env (transform_matrix s) (xy s))) 1000]))"
proof (intro conjI)
  show "alignment_offsets env (transform_matrix s) (xy s) =
           (let x = float_of (fst (xy s)) / real_of_int (camera_width env) - 1/2;
                y = float_of (snd (xy s)) / real_of_int (camera_height env) - 1/2;
                v = [x ^ 2, y ^ 2, x * y, x, y, 0]
            in (around (- (55/100) * dot (map fst (transform_matrix s)) v) 3,
                around (- (55/100) * dot (map snd (transform_matrix s)) v) 3))"
    by (rule alignment_offsets_formula)
  note ps = process_state_200 [OF assms(1)]
  show "(\<exists>r s'. process_state env tool rep s = Inr (Return r s')) \<longleftrightarrow>
           alignment_offsets env (transform_matrix s) (xy s) = (0, 0)"
    unfolding ps using assms(2,3)
    by (auto simp: nozzle_alignment_def Let_def prod_eq_iff)
  show "alignment_offsets env (transform_matrix s) (xy s) \<noteq> (0, 0) \<longrightarrow>
           (\<exists>s'. process_state env tool rep s = Inr (Continue s') \<and> state s' = 200 \<and>
              sent s' = sent s @ [M564_S1,
                RelMove (fst (alignment_offsets env (transform_matrix s) (xy s)))
                        (snd (alignment_offsets env (transform_matrix s) (xy s))) 1000])"
    unfolding ps using assms(2,3)
    by (auto simp: nozzle_alignment_def Let_def prod_eq_iff)
qed

lemma sample_matrix_length: "length sample_matrix = 6"
  by (simp add: sample_matrix_def)

lemma off_centre_fields:
  "state off_centre_state = 200"
  "transform_matrix off_centre_state = sample_matrix"
  "tool_coordinates off_centre_state = Some (985/10, 1012/10)"
  "xy off_centre_state = (330, 250)"
  "sent off_centre_state = []"
  by (simp_all add: off_centre_state_def init_state_def sample_matrix_def)

lemma off_centre_offsets:
  "alignment_offsets sample_env sample_matrix (330, 250) = (-86/1000, -115/1000)"
  unfolding alignment_offsets_formula
  by (simp add: sample_env_def sample_matrix_def float_of_def around_def rint_def Let_def)

text \<open>
  The step at \<open>off_centre_state\<close>: ten pixels off the centre of a 640 by 480 frame give
  the rounded offset \<open>(-0.086, -0.115)\<close>, the move is sent and the state stays 200.
\<close>

theorem convergence_step_witness:
  "state off_centre_state = 200 \<and> length (transform_matrix off_centre_state) = 6 \<and>
   tool_coordinates off_centre_state = Some (985/10, 1012/10) \<and>
   0 < camera_width sample_env \<and> 0 < camera_height sample_env \<and>
   alignment_offsets sample_env (transform_matrix off_centre_state) (xy off_centre_state)
     = (-86/1000, -115/1000) \<and>
   (\<exists>s'. process_state sample_env 0 0 off_centre_state = Inr (Continue s') \<and> state s' = 200 \<and>
      sent s' = [M564_S1, RelMove (-86/1000) (-115/1000) 1000])"
proof -
  have l: "length (transform_matrix off_centre_state) = 6"
    by (simp add: off_centre_fields sample_matrix_def)
  have p: "0 < camera_width sample_env" "0 < camera_height sample_env"
    by (simp_all add: sample_env_def)
  from convergence_step [OF off_centre_fields(1) l off_centre_fields(3) p, of 0 0]
  show ?thesis
    using p by (simp add: off_centre_fields off_centre_offsets sample_matrix_length)
qed

lemma centred_fields:
  "state centred_state = 200"
  "transform_matrix centred_state = sample_matrix"
  "tool_coordinates centred_state = Some (985/10, 1012/10)"
  "xy centred_state = (320, 240)"
  "mpp centred_state = Finite (1/10)"
  by (simp_all add: centred_state_def init_state_def sample_matrix_def)

lemma centred_offsets:
  "alignment_offsets sample_env sample_matrix (320, 240) = (0, 0)"
  unfolding alignment_offsets_formula
  by (simp add: sample_env_def sample_matrix_def float_of_def)

section \<open>The final offset\<close>

text \<open>
  C2. When the rounded offset is \<open>(0, 0)\<close> the step returns, and the offset it returns
  and emits is \<open>(controlled point + G10 tool offset) - tool machine position\<close>, each axis
  rounded to three decimals; for the controlled point \<open>(100, 100)\<close>, the tool offset
  \<open>(0, 0)\<close> and the tool at \<open>(98.5, 101.2)\<close> it is \<open>(1.5, -1.2)\<close>.
\<close>

theorem final_offset:
  assumes "state s = 200" and "length (transform_matrix s) = 6"
    and "tool_coordinates s = Some tc"
    and "alignment_offsets env (transform_matrix s) (xy s) = (0, 0)"
    and "0 < camera_width env" and "0 < camera_height env"
  shows "(\<exists>s'. process_state env tool rep s =
            Inr (Return (\<lparr>ret_X = around ((fst (cp_coords env) + fst (getG10ToolOffset env tool)) - fst tc) 3,
                          ret_Y = around ((snd (cp_coords env) + snd (getG10ToolOffset env tool)) - snd tc) 3,
                          ret_MPP = mpp s\<rparr>, transform_matrix s, mpp s) s') \<and>
            emitted s' = emitted s @
              [result_record tool rep (mpp s)
                 (around ((fst (cp_coords env) + fst (getG10ToolOffset env tool)) - fst tc) 3)
                 (around ((snd (cp_coords env) + snd (getG10ToolOffset env tool)) - snd tc) 3)]) \<and>
         (cp_coords env = (100, 100) \<longrightarrow> getG10ToolOffset env tool = (0, 0) \<longrightarrow>
          tc = (985/10, 1012/10) \<longrightarrow>
            (\<exists>r s'. process_state env tool rep s = Inr (Return (r, transform_matrix s, mpp s) s') \<and>
               ret_X r = 15/10 \<and> ret_Y r = - (12/10)))"
proof -
  note ps = process_state_200 [OF assms(1)]
  have a: "around (100 + 0 - 985/10) 3 = 15/10" "around (100 + 0 - 1012/10) 3 = - (12/10)"
    by (simp_all add: around_def rint_def Let_def)
  show ?thesis
    unfolding ps using assms(2,3,4) a
    by (auto simp: nozzle_alignment_def Let_def)
qed

text \<open>The step at \<open>centred_state\<close>, where the detection is at the frame centre.\<close>

theorem final_offset_witness:
  "state centred_state = 200 \<and> length (transform_matrix centred_state) = 6 \<and>
   tool_coordinates centred_state = Some (985/10, 1012/10) \<and>
   alignment_offsets sample_env (transform_matrix centred_state) (xy centred_state) = (0, 0) \<and>
   cp_coords sample_env = (100, 100) \<and> getG10ToolOffset sample_env 0 = (0, 0) \<and>
   0 < camera_width sample_env \<and> 0 < camera_height sample_env \<and>
   (\<exists>s'. process_state sample_env 0 0 centred_state =
      Inr (Return (\<lparr>ret_X = 15/10, ret_Y = - (12/10), ret_MPP = Finite (1/10)\<rparr>,
                   sample_matrix, Finite (1/10)) s'))"
proof -
  have l: "length (transform_matrix centred_state) = 6"
    by (simp add: centred_fields sample_matrix_def)
  have o: "alignment_offsets sample_env (transform_matrix centred_state) (xy centred_state) = (0, 0)"
    by (simp add: centred_fields centred_offsets)
  have e: "cp_coords sample_env = (100, 100)" "getG10ToolOffset sample_env 0 = (0, 0)"
    by (simp_all add: sample_env_def)
  have a: "around (100 + 0 - 985/10) 3 = 15/10" "around (100 + 0 - 1012/10) 3 = - (12/10)"
    by (simp_all add: around_def rint_def Let_def)
  have p: "0 < camera_width sample_env" "0 < camera_height sample_env"
    by (simp_all add: sample_env_def)
  from final_offset [OF centred_fields(1) l centred_fields(3) o p, of 0 0]
  show ?thesis
    using e a p by (auto simp: centred_fields centred_offsets sample_matrix_length)
qed

section \<open>The detection gate\<close>

lemma gate_returns_single:
  "analyze_loop al rd n ev gs = (Detected d, ev', rest) \<Longrightarrow>
     \<exists>g \<in> set gs. length (keypoints g) = 1 \<and> det_xy d = pixel_of (hd (keypoints g)) \<and>
        det_radius d = around (size_kp (hd (keypoints g)) / 2) 0"
proof (induction gs arbitrary: n ev)
  case Nil
  then show ?case by simp
next
  case (Cons g gs)
  show ?case
  proof (cases "on_at_test g \<and> ret g \<and> n \<le> 25 \<and> length (keypoints g) = 1")
    case True
    with Cons.prems show ?thesis
      by (auto simp: Let_def split: if_splits)
  next
    case False
    with Cons.prems obtain n' ev0 where "analyze_loop al rd n' ev0 gs = (Detected d, ev', rest)"
      by (auto simp: Let_def split: if_splits simp del: length_0_conv length_greater_0_conv)
    from Cons.IH [OF this] show ?thesis by auto
  qed
qed

lemma misses_counted:
  assumes "\<forall>m \<in> set ms. on_at_test m \<and> ret m \<and> keypoints m = [] \<and> 25 < clock m - rd"
    and "n + length ms \<le> 26"
  shows "analyze_loop al rd n ev (ms @ fs) =
           analyze_loop al rd (n + length ms) (ev @ replicate (length ms) NoCircles) fs"
  using assms
proof (induction ms arbitrary: n ev)
  case Nil
  then show ?case by simp
next
  case (Cons m ms)
  have "analyze_loop al rd n ev ((m # ms) @ fs) = analyze_loop al rd (n + 1) (ev @ [NoCircles]) (ms @ fs)"
    using Cons.prems by simp
  also have "\<dots> = analyze_loop al rd (n + 1 + length ms) ((ev @ [NoCircles]) @ replicate (length ms) NoCircles) fs"
    using Cons.prems by (intro Cons.IH) simp_all
  finally show ?case by (simp add: replicate_append_same)
qed

text \<open>
  C6, amended. For a frame read successfully with detection on: when the counter
  exceeds 25 the gate signals the detection error, resets the counter, discards the frame
  and goes on; otherwise a frame without key points is counted (and reported) only if more
  than 25 ms have passed since the call began, a frame with several key points is reported
  under the same condition and leaves the counter alone, and in both cases the gate goes
  on without returning. The gate returns a position only from a frame with exactly one
  key point, and then it is that key point's rounded centre and radius. The error is
  signalled on the frame that follows 26 counted misses.
\<close>

theorem detection_gate:
  assumes "on_at_test f" and "ret f"
  shows
   "(25 < nocircle \<longrightarrow>
       analyze_loop al rd nocircle ev (f # fs) = analyze_loop al rd 0 (ev @ [DetectionError]) fs) \<and>
    (nocircle \<le> 25 \<and> length (keypoints f) = 0 \<longrightarrow>
       analyze_loop al rd nocircle ev (f # fs) =
         (if 25 < clock f - rd then analyze_loop al rd (nocircle + 1) (ev @ [NoCircles]) fs
          else analyze_loop al rd nocircle ev fs)) \<and>
    (nocircle \<le> 25 \<and> 1 < length (keypoints f) \<longrightarrow>
       analyze_loop al rd nocircle ev (f # fs) =
         (if 25 < clock f - rd
          then analyze_loop al rd nocircle (ev @ [TooManyCircles (length (keypoints f))]) fs
          else analyze_loop al rd nocircle ev fs)) \<and>
    (nocircle \<le> 25 \<and> length (keypoints f) = 1 \<and> on_at_return f \<and> al \<longrightarrow>
       analyze_loop al rd nocircle ev (f # fs) =
         (Detected \<lparr>det_xy = pixel_of (hd (keypoints f)), det_target = target_of f,
                    det_tool_coordinates = coords f,
                    det_radius = around (size_kp (hd (keypoints f)) / 2) 0\<rparr>,
          ev @ [Position (pixel_of (hd (keypoints f))) (around (size_kp (hd (keypoints f)) / 2) 0)],
          fs)) \<and>
    (\<forall>(gs :: frame list) d ev' rest. analyze_loop al rd nocircle ev gs = (Detected d, ev', rest) \<longrightarrow>
       (\<exists>g \<in> set gs. length (keypoints g) = 1 \<and> det_xy d = pixel_of (hd (keypoints g)) \<and>
          det_radius d = around (size_kp (hd (keypoints g)) / 2) 0)) \<and>
    (\<forall>ms :: frame list. length ms = 26 \<and>
          (\<forall>m \<in> set ms. on_at_test m \<and> ret m \<and> keypoints m = [] \<and> 25 < clock m - rd) \<longrightarrow>
       analyze_loop al rd 0 ev (ms @ f # fs) =
         analyze_loop al rd 0 (ev @ replicate 26 NoCircles @ [DetectionError]) fs)"
proof (intro conjI allI impI)
  fix gs :: "frame list" and d ev' rest
  assume "analyze_loop al rd nocircle ev gs = (Detected d, ev', rest)"
  then show "\<exists>g \<in> set gs. length (keypoints g) = 1 \<and> det_xy d = pixel_of (hd (keypoints g)) \<and>
          det_radius d = around (size_kp (hd (keypoints g)) / 2) 0"
    by (rule gate_returns_single)
next
  fix ms :: "frame list"
  assume a: "length ms = 26 \<and>
          (\<forall>m \<in> set ms. on_at_test m \<and> ret m \<and> keypoints m = [] \<and> 25 < clock m - rd)"
  then have "analyze_loop al rd 0 ev (ms @ f # fs) =
      analyze_loop al rd (0 + length ms) (ev @ replicate (length ms) NoCircles) (f # fs)"
    by (intro misses_counted) simp_all
  also have "\<dots> = analyze_loop al rd 0 ((ev @ replicate 26 NoCircles) @ [DetectionError]) fs"
    using a assms by simp
  finally show "analyze_loop al rd 0 ev (ms @ f # fs) =
         analyze_loop al rd 0 (ev @ replicate 26 NoCircles @ [DetectionError]) fs"
    by simp
qed (use assms in \<open>simp_all add: Let_def del: length_0_conv length_greater_0_conv\<close>)

lemma miss_frame_simps [simp]:
  "on_at_test (miss_frame t)" "ret (miss_frame t)" "keypoints (miss_frame t) = []"
  "clock (miss_frame t) = t"
  by (simp_all add: miss_frame_def)

lemma single_frame_simps [simp]:
  "on_at_test (single_frame t)" "ret (single_frame t)" "on_at_return (single_frame t)"
  "keypoints (single_frame t) = [\<lparr>pt = (1602/5, 1198/5), size_kp = 21\<rparr>]"
  "coords (single_frame t) = Some (100, 100)" "target_of (single_frame t) = (320, 240)"
  by (simp_all add: single_frame_def target_of_def rint_def)

lemma pixel_of_sample [simp]:
  "pixel_of \<lparr>pt = (1602/5, 1198/5), size_kp = 21\<rparr> = (320, 240)"
  by (simp add: pixel_of_def rint_def Let_def)

lemma radius_sample [simp]: "around (21 / 2) 0 = 10"
  by (simp add: around_def rint_def Let_def)

text \<open>
  C6, as stated, fails: after 25 counted frames without a key point no detection error
  has been signalled, and the next frame, with one key point, is returned.
\<close>

theorem gate_25_misses_counterexample:
  "analyzeFrame True 0 (replicate 25 (miss_frame 1000) @ [single_frame 2000]) =
     (Detected \<lparr>det_xy = (320, 240), det_target = (320, 240),
                det_tool_coordinates = Some (100, 100), det_radius = 10\<rparr>,
      replicate 25 NoCircles @ [Position (320, 240) 10], []) \<and>
   DetectionError \<notin> set (fst (snd (analyzeFrame True 0
     (replicate 25 (miss_frame 1000) @ [single_frame 2000]))))"
proof -
  have "analyze_loop True 0 0 [] (replicate 25 (miss_frame 1000) @ [single_frame 2000]) =
        analyze_loop True 0 (0 + length (replicate 25 (miss_frame 1000)))
          ([] @ replicate (length (replicate 25 (miss_frame 1000))) NoCircles) [single_frame 2000]"
    by (rule misses_counted) simp_all
  then show ?thesis
    by (simp add: analyzeFrame_def Let_def)
qed

text \<open>
  Twenty-six counted misses, a twenty-seventh frame that is discarded with the error
  signal, and a frame with one key point.
\<close>

theorem detection_gate_witness:
  "on_at_test (miss_frame 1000) \<and> ret (miss_frame 1000) \<and>
   analyzeFrame True 0 (replicate 26 (miss_frame 1000) @ [miss_frame 1000, single_frame 2000]) =
     (Detected \<lparr>det_xy = (320, 240), det_target = (320, 240),
                det_tool_coordinates = Some (100, 100), det_radius = 10\<rparr>,
      replicate 26 NoCircles @ [DetectionError, Position (320, 240) 10], [])"
proof -
  have a: "on_at_test (miss_frame 1000)" "ret (miss_frame 1000)" by simp_all
  have b: "length (replicate 26 (miss_frame 1000)) = 26 \<and>
     (\<forall>m \<in> set (replicate 26 (miss_frame 1000)).
        on_at_test m \<and> ret m \<and> keypoints m = [] \<and> 25 < clock m - 0)"
    by simp
  from detection_gate [OF a, of 0 True 0 "[]" "[single_frame 2000]"] b
  have "analyze_loop True 0 0 [] (replicate 26 (miss_frame 1000) @ miss_frame 1000 # [single_frame 2000]) =
         analyze_loop True 0 0 ([] @ replicate 26 NoCircles @ [DetectionError]) [single_frame 2000]"
    by blast
  then show ?thesis
    by (simp add: analyzeFrame_def Let_def)
qed

section \<open>The camera calibration sweep\<close>

lemma sqrt25: "sqrt 25 = 5"
proof -
  have "sqrt (5 ^ 2) = 5" by (rule real_sqrt_unique) simp_all
  then show ?thesis by simp
qed

lemma mpp_200_203: "calibrate_mpp (200, 200) (203, 204) = Finite (1/10)"
  by (simp add: calibrate_mpp_def getDistance_def float_of_def Let_def sqrt25 np_truediv_def)
     (simp add: around_def rint_def Let_def)

lemmas loop_defs = accumulate_def store_detection_def take_average_def position_iterations_def
  process_state_def camera_calibration_start_def camera_calibration_move_def
  calibrationCoordinates_def init_state_def det_at_def float_of_def Let_def

lemmas solve_defs = camera_calibration_solve_def transform_input_def least_square_mapping_def
  design_matrix_def real_coords_def enumerate_eq_zip

lemma length_calibrationCoordinates [simp]: "length calibrationCoordinates = 10"
  by (simp add: calibrationCoordinates_def)

lemma length_transform_input [simp]: "length (transform_input env sp cam) = length cam"
  by (simp add: transform_input_def)

lemma sweep_inv_bookkeeping [simp]:
  "sweep_inv env (store_detection d s) = sweep_inv env s"
  "sweep_inv env (accumulate s) = sweep_inv env s"
  "sweep_inv env (take_average s) = sweep_inv env s"
  by (simp_all add: sweep_inv_def store_detection_def accumulate_def take_average_def)

lemma sweep_inv_start:
  assumes "camera_calibration_start s = Inr (Continue s')"
  shows "sweep_inv env s'"
  using assms
  by (auto simp: camera_calibration_start_def sweep_inv_def Let_def split: option.splits)

lemma sweep_inv_move:
  assumes "camera_calibration_move s = Inr (Continue s')"
    and "1 \<le> state s" and "state s < 10"
    and "length (camera_coordinates s) = state s" and "length (space_coordinates s) = state s"
  shows "sweep_inv env s'"
  using assms
  by (auto simp: camera_calibration_move_def sweep_inv_def Let_def split: option.splits if_splits)

lemma sweep_inv_solve:
  assumes "camera_calibration_solve env s = Inr (Continue s')"
    and "length (camera_coordinates s) = 10" and "length (space_coordinates s) = 10"
  shows "sweep_inv env s'"
  using assms
  by (auto simp: camera_calibration_solve_def sweep_inv_def Let_def
      split: option.splits if_splits sum.splits prod.splits)

lemma nozzle_alignment_keeps:
  assumes "nozzle_alignment env tool rep s = Inr res"
  shows "case res of
           Continue s' \<Rightarrow> state s' = 200 \<and> camera_coordinates s' = camera_coordinates s \<and>
              space_coordinates s' = space_coordinates s \<and>
              transform_matrix s' = transform_matrix s \<and>
              transform_residual s' = transform_residual s
         | Return r s' \<Rightarrow> state s' = state s \<and> camera_coordinates s' = camera_coordinates s \<and>
              space_coordinates s' = space_coordinates s \<and>
              transform_matrix s' = transform_matrix s \<and>
              transform_residual s' = transform_residual s \<and> fst (snd r) = transform_matrix s"
  using assms
  by (auto simp: nozzle_alignment_def Let_def split: option.splits if_splits)

lemma sweep_inv_step:
  assumes "sweep_inv env s" and "process_state env tool rep s = Inr res"
  shows "case res of
           Continue s' \<Rightarrow> sweep_inv env s'
         | Return r s' \<Rightarrow> sweep_inv env s' \<and> state s' = 200 \<and> fst (snd r) = transform_matrix s'"
proof -
  consider "state s = 0" | "1 \<le> state s" "state s < 10" | "state s = 10" | "state s = 200"
    using assms(1) unfolding sweep_inv_def by linarith
  then show ?thesis
  proof cases
    case 1
    then have "camera_calibration_start s = Inr res" using assms(2) by (simp add: process_state_def)
    then show ?thesis
      using sweep_inv_start [of s _ env]
      by (cases res) (auto simp: camera_calibration_start_def Let_def split: option.splits)
  next
    case 2
    then have m: "camera_calibration_move s = Inr res" using assms(2) by (simp add: process_state_def)
    from 2 assms(1) have l: "length (camera_coordinates s) = state s" "length (space_coordinates s) = state s"
      by (auto simp: sweep_inv_def)
    show ?thesis
      using m sweep_inv_move [of s _ env, OF _ 2 l]
      by (cases res) (auto simp: camera_calibration_move_def Let_def split: option.splits)
  next
    case 3
    then have m: "camera_calibration_solve env s = Inr res" using assms(2) by (simp add: process_state_def)
    from 3 assms(1) have l: "length (camera_coordinates s) = 10" "length (space_coordinates s) = 10"
      by (auto simp: sweep_inv_def)
    show ?thesis
      using m sweep_inv_solve [of env s, OF _ l]
      by (cases res) (auto simp: camera_calibration_solve_def Let_def
          split: option.splits if_splits sum.splits prod.splits)
  next
    case 4
    then have m: "nozzle_alignment env tool rep s = Inr res"
      using assms(2) by (simp add: process_state_200)
    from 4 assms(1) have i: "length (camera_coordinates s) = 11" "length (space_coordinates s) = 11"
      "least_square_mapping env (transform_input env (space_coordinates s) (camera_coordinates s))
          = Inr (transform_matrix s, transform_residual s)"
      by (auto simp: sweep_inv_def)
    from nozzle_alignment_keeps [OF m] 4 i show ?thesis
      by (cases res) (auto simp: sweep_inv_def)
  qed
qed

lemma sweep_inv_loop:
  assumes "calibrate_loop env tool rep s ds = Returned r s'" and "sweep_inv env s"
  shows "sweep_inv env s' \<and> state s' = 200 \<and> fst (snd r) = transform_matrix s'"
  using assms
proof (induction env tool rep s ds rule: calibrate_loop.induct)
  case (1 env tool rep s)
  then show ?case by simp
next
  case (2 env tool rep s ds)
  then show ?case by simp
next
  case (3 env tool rep s d ds)
  let ?s1 = "accumulate (store_detection d s)"
  have i1: "sweep_inv env ?s1" using "3.prems"(2) by simp
  show ?case
  proof (cases "detect_count ?s1 \<ge> position_iterations")
    case False
    with "3.prems"(1) have "calibrate_loop env tool rep ?s1 ds = Returned r s'"
      by (simp add: Let_def)
    from "3.IH"(2) [OF refl False this i1] show ?thesis .
  next
    case True
    let ?s2 = "take_average ?s1"
    from True "3.prems"(1) obtain d' ds' where ds: "ds = Some d' # ds'"
      by (cases ds) (auto simp: Let_def split: option.splits)
    let ?s3 = "store_detection d' ?s2"
    have i3: "sweep_inv env ?s3" using i1 by simp
    from True "3.prems"(1) ds obtain res where res: "process_state env tool rep ?s3 = Inr res"
      by (cases "process_state env tool rep ?s3") (auto simp: Let_def)
    from sweep_inv_step [OF i3 res] have st:
      "case res of Continue s'' \<Rightarrow> sweep_inv env s''
         | Return r s'' \<Rightarrow> sweep_inv env s'' \<and> state s'' = 200 \<and> fst (snd r) = transform_matrix s''" .
    show ?thesis
    proof (cases res)
      case (Continue s'')
      with True "3.prems"(1) ds res have "calibrate_loop env tool rep s'' ds' = Returned r s'"
        by (simp add: Let_def)
      moreover have "sweep_inv env s''" using st Continue by simp
      ultimately show ?thesis
        using "3.IH"(1) [OF refl True refl ds refl res Continue] by blast
    next
      case (Return r0 s'')
      with True "3.prems"(1) ds res have "r0 = r" "s'' = s'"
        by (simp_all add: Let_def)
      with st Return show ?thesis by simp
    qed
  qed
qed

text \<open>
  C4, amended. A call that starts without a transform matrix and returns has stored
  exactly eleven samples (the start position and the position after each of the ten
  moves), and the transform it returns is the solver's answer for exactly those eleven.
\<close>

theorem sweep_collects_eleven:
  assumes "length tm0 \<le> 1"
    and "calibrateTool env tm0 m0 tool rep ds = Returned (r, tm, mp) s'"
  shows "length (camera_coordinates s') = 11 \<and> length (space_coordinates s') = 11 \<and>
         length (transform_input env (space_coordinates s') (camera_coordinates s')) = 11 \<and>
         least_square_mapping env (transform_input env (space_coordinates s') (camera_coordinates s'))
           = Inr (tm, transform_residual s')"
proof -
  have "sweep_inv env (init_state tm0 m0)"
    using assms(1) by (simp add: sweep_inv_def init_state_def)
  from sweep_inv_loop [OF assms(2) [unfolded calibrateTool_def] this]
  show ?thesis by (auto simp: sweep_inv_def)
qed

text \<open>
  A whole call: the twenty-six results of the sweep and two more at the frame centre.
\<close>

theorem sweep_collects_eleven_witness:
  "length ([] :: (real \<times> real) list) \<le> 1 \<and>
   (case calibrateTool fixed_env [] NaN 0 0
           (sweep_detections @ [Some (det_at 320 240), Some (det_at 320 240)]) of
      Returned (r, tm, mp) s' \<Rightarrow>
        tm = sample_matrix \<and> length (camera_coordinates s') = 11 \<and>
        length (space_coordinates s') = 11
    | _ \<Rightarrow> False)"
proof -
  have "\<exists>r s'. calibrateTool fixed_env [] NaN 0 0
           (sweep_detections @ [Some (det_at 320 240), Some (det_at 320 240)])
         = Returned (r, sample_matrix, Finite (1/10)) s'"
    by (simp add: calibrateTool_def sweep_detections_def loop_defs solve_defs fixed_env_def
        mpp_200_203 np_mean_def sample_matrix_def matT_vec_def nozzle_alignment_def
        alignment_offsets_formula normalize_coords_def)
  then obtain r s' where run: "calibrateTool fixed_env [] NaN 0 0
           (sweep_detections @ [Some (det_at 320 240), Some (det_at 320 240)])
         = Returned (r, sample_matrix, Finite (1/10)) s'"
    by blast
  have "length ([] :: (real \<times> real) list) \<le> 1" by simp
  from sweep_collects_eleven [OF this run] show ?thesis
    by (simp add: run)
qed

text \<open>
  C4, as stated, fails: when the transform has been solved, eleven samples are stored and
  \<open>lstsq\<close> has been given eleven rows.
\<close>

theorem sweep_ten_samples_counterexample:
  "(case calibrate_loop counting_env 0 0 (init_state [] NaN) sweep_detections of
      AwaitingFrame s \<Rightarrow>
        state s = 200 \<and> length (camera_coordinates s) = 11 \<and>
        length (space_coordinates s) = 11 \<and>
        transform_matrix s = replicate 6 (11, 11)
    | _ \<Rightarrow> False)"
  by (simp add: sweep_detections_def loop_defs solve_defs counting_env_def mpp_200_203 np_mean_def)

section \<open>Position averaging\<close>

text \<open>
  C5. On \<open>jitter_detections\<close> the loop makes two state transitions out of eight results:
  the first after five accumulated results and a confirming one, the second after a single
  further accumulated result and a confirming one, because \<open>detect_count\<close> is never
  reset (it is 6). The camera coordinates stored are the confirming results
  \<open>(200, 200)\<close> and \<open>(203, 204)\<close>; the average, \<open>(100, 100)\<close> at the first transition
  and \<open>(66.667, 66.667)\<close> at the second, is computed and used nowhere.
\<close>

theorem averaging_not_used:
  "(case calibrate_loop sample_env 0 0 (init_state [] NaN) jitter_detections of
      AwaitingFrame s \<Rightarrow>
        state s = 2 \<and> camera_coordinates s = [(200, 200), (203, 204)] \<and>
        detect_count s = 6 \<and> mpp s = Finite (1/10) \<and>
        average_location s = (66667/1000, 66667/1000)
    | _ \<Rightarrow> False)"
  by (simp add: jitter_detections_def loop_defs mpp_200_203 around_def rint_def)

section \<open>The least-squares solver\<close>

lemma dot_commute: "dot u v = dot v u"
proof (induction u arbitrary: v)
  case Nil
  then show ?case by simp
next
  case (Cons a u)
  then show ?case by (cases v) simp_all
qed

lemma dot_diff:
  assumes "length u = length v"
  shows "dot row (map2 (-) u v) = dot row u - dot row v"
  using assms
proof (induction u v arbitrary: row rule: list_induct2)
  case Nil
  then show ?case by simp
next
  case (Cons a u b v)
  then show ?case by (cases row) (simp_all add: algebra_simps)
qed

lemma dot_replicate_zero [simp]: "dot (replicate n 0) v = 0"
proof (induction n arbitrary: v)
  case 0
  then show ?case by simp
next
  case (Suc n)
  then show ?case by (cases v) simp_all
qed

lemma diff_zero_eq:
  assumes "length u = length v" and "map2 (-) u v = replicate n (0::real)"
  shows "u = v"
  using assms
proof (induction u v arbitrary: n rule: list_induct2)
  case Nil
  then show ?case by simp
next
  case (Cons a u b v)
  then show ?case by (cases n) simp_all
qed

lemma length_mat_mul [simp]: "length (mat_mul A X) = length A"
  by (simp add: mat_mul_def)

lemma length_design_matrix [simp]: "length (design_matrix pts) = length pts"
  by (simp add: design_matrix_def)

lemma length_real_coords [simp]: "length (real_coords pts) = length pts"
  by (simp add: real_coords_def)

lemma sq_sum_nonneg: "0 \<le> sum_list (map2 (\<lambda>p b. (f b - f p) ^ 2) P B)" for f :: "'a \<Rightarrow> real"
  by (rule sum_list_nonneg) auto

lemma sq_sum_same: "sum_list (map2 (\<lambda>p b. (f b - f p) ^ 2) P P) = 0" for f :: "'a \<Rightarrow> real"
  by (induction P) simp_all

lemma sq_sum_zero_imp:
  fixes f :: "'a \<Rightarrow> real"
  assumes "length P = length B" and "sum_list (map2 (\<lambda>p b. (f b - f p) ^ 2) P B) = 0"
  shows "map f P = map f B"
  using assms
proof (induction P B rule: list_induct2)
  case Nil
  then show ?case by simp
next
  case (Cons p P b B)
  have "0 \<le> (f b - f p) ^ 2" by simp
  moreover have "0 \<le> sum_list (map2 (\<lambda>p b. (f b - f p) ^ 2) P B)" by (rule sq_sum_nonneg)
  moreover have "(f b - f p) ^ 2 + sum_list (map2 (\<lambda>p b. (f b - f p) ^ 2) P B) = 0"
    using Cons.prems by simp
  ultimately have "(f b - f p) ^ 2 = 0" "sum_list (map2 (\<lambda>p b. (f b - f p) ^ 2) P B) = 0"
    by linarith+
  with Cons.IH show ?case by simp
qed

lemma col_sq_error_nonneg:
  "0 \<le> fst (col_sq_error A X B)" "0 \<le> snd (col_sq_error A X B)"
  by (simp_all add: col_sq_error_def sq_sum_nonneg)

lemma col_sq_error_exact:
  assumes "B = mat_mul A X"
  shows "col_sq_error A X B = (0, 0)"
  by (simp add: col_sq_error_def assms sq_sum_same)

lemma col_sq_error_zero_imp:
  assumes "length B = length A" and "col_sq_error A X B = (0, 0)"
  shows "mat_mul A X = B"
proof (rule pair_list_eqI)
  show "map fst (mat_mul A X) = map fst B"
    using assms by (intro sq_sum_zero_imp) (simp_all add: col_sq_error_def)
  show "map snd (mat_mul A X) = map snd B"
    using assms by (intro sq_sum_zero_imp) (simp_all add: col_sq_error_def)
qed

lemma column_unique:
  assumes "full_column_rank A" and "length u = 6" and "length v = 6"
    and "\<forall>row \<in> set A. dot u row = dot v row"
  shows "u = v"
proof -
  have "length (map2 (-) u v) = 6" using assms(2,3) by simp
  moreover have "\<forall>row \<in> set A. dot row (map2 (-) u v) = 0"
    using assms(2,3,4) by (simp add: dot_diff dot_commute)
  ultimately have "map2 (-) u v = replicate 6 0"
    using assms(1) unfolding full_column_rank_def by blast
  with assms(2,3) show ?thesis by (intro diff_zero_eq [of u v 6]) simp_all
qed

lemma solution_unique:
  assumes "full_column_rank A" and "length X = 6" and "length Y = 6"
    and "mat_mul A X = mat_mul A Y"
  shows "X = Y"
proof (rule pair_list_eqI)
  have eq: "\<forall>row \<in> set A. matT_vec X row = matT_vec Y row"
    using assms(4) by (simp add: mat_mul_def)
  show "map fst X = map fst Y"
    using assms(1-3) eq by (intro column_unique [of A]) (simp_all add: matT_vec_def)
  show "map snd X = map snd Y"
    using assms(1-3) eq by (intro column_unique [of A]) (simp_all add: matT_vec_def)
qed

lemma least_squares_recovers:
  assumes "generated_from T0 pts" and "full_column_rank (design_matrix pts)"
    and "is_least_squares (design_matrix pts) (real_coords pts) X"
  shows "X = T0" and "col_sq_error (design_matrix pts) X (real_coords pts) = (0, 0)"
proof -
  let ?A = "design_matrix pts" and ?B = "real_coords pts"
  have l0: "length T0 = 6" and b: "?B = mat_mul ?A T0"
    using assms(1) by (simp_all add: generated_from_def)
  have lx: "length X = 6" using assms(3) by (simp add: is_least_squares_def)
  have e0: "col_sq_error ?A T0 ?B = (0, 0)" by (rule col_sq_error_exact [OF b])
  have "fst (col_sq_error ?A X ?B) \<le> fst (col_sq_error ?A T0 ?B)"
       "snd (col_sq_error ?A X ?B) \<le> snd (col_sq_error ?A T0 ?B)"
    using assms(3) l0 by (simp_all add: is_least_squares_def)
  with e0 col_sq_error_nonneg [of ?A X ?B]
  show ex: "col_sq_error ?A X ?B = (0, 0)" by (simp add: prod_eq_iff)
  have "mat_mul ?A X = ?B" by (rule col_sq_error_zero_imp [OF _ ex]) simp
  with b have "mat_mul ?A X = mat_mul ?A T0" by simp
  from solution_unique [OF assms(2) lx l0 this] show "X = T0" .
qed

lemma replicate_6: "replicate 6 x = [x, x, x, x, x, x]"
  by (simp add: eval_nat_numeral)

lemma length_6_obtain:
  assumes "length c = 6"
  obtains c1 c2 c3 c4 c5 c6 where "c = [c1, c2, c3, c4, c5, c6]"
  using assms by (auto simp: length_Suc_conv eval_nat_numeral)

lemma col_sq_norm_nonneg: "0 \<le> fst (col_sq_norm X)" "0 \<le> snd (col_sq_norm X)"
  unfolding col_sq_norm_def fst_conv snd_conv
  by (rule sum_list_nonneg, auto)+

lemma col_sq_norm_zero: "col_sq_norm (replicate n (0, 0)) = (0, 0)"
  by (simp add: col_sq_norm_def sum_list_replicate)

lemma mat_mul_zero: "mat_mul A (replicate n (0, 0)) = replicate (length A) (0, 0)"
  by (simp add: mat_mul_def matT_vec_def map_replicate_const)

lemma zero_solution_contract:
  assumes "B = replicate (length A) (0, 0)" and "\<not> full_column_rank A"
  shows "lstsq_contract A B
           \<lparr>solution = replicate 6 (0, 0), residuals = [], rank = k, singular_values = sv\<rparr>"
proof -
  have e: "col_sq_error A (replicate 6 (0, 0)) B = (0, 0)"
    by (rule col_sq_error_exact) (simp add: assms(1) mat_mul_zero)
  have "is_least_squares A B (replicate 6 (0, 0))"
    by (simp add: is_least_squares_def e col_sq_error_nonneg)
  then show ?thesis
    using assms(2) by (simp add: lstsq_contract_def col_sq_norm_zero col_sq_norm_nonneg)
qed

lemma exact_solution_contract:
  assumes "generated_from T0 pts" and "full_column_rank (design_matrix pts)" and "6 < length pts"
  shows "lstsq_contract (design_matrix pts) (real_coords pts)
           \<lparr>solution = T0, residuals = [0, 0], rank = k, singular_values = sv\<rparr>"
proof -
  let ?A = "design_matrix pts" and ?B = "real_coords pts"
  have e: "col_sq_error ?A T0 ?B = (0, 0)"
    using assms(1) by (intro col_sq_error_exact) (simp add: generated_from_def)
  have l: "length T0 = 6" using assms(1) by (simp add: generated_from_def)
  have ls: "is_least_squares ?A ?B T0"
    by (simp add: is_least_squares_def e l col_sq_error_nonneg)
  have u: "X' = T0" if "is_least_squares ?A ?B X'" for X'
    using least_squares_recovers(1) [OF assms(1,2) that] .
  have r: "6 < length ?A" using assms(3) by simp
  show ?thesis
    unfolding lstsq_contract_def lstsq_result.simps
  proof (intro conjI allI impI)
    show "is_least_squares ?A ?B T0" by (rule ls)
    show "[0, 0] = (if full_column_rank ?A \<and> 6 < length ?A
        then [fst (col_sq_error ?A T0 ?B), snd (col_sq_error ?A T0 ?B)] else [])"
      using assms(2) r e by simp
  qed (use u in auto)
qed

text \<open>
  C3, amended. The solver builds the design matrix with rows
  \<open>[x\<^sup>2, y\<^sup>2, xy, x, y, 1]\<close>, hands it to \<open>lstsq\<close> with the machine coordinates as
  right-hand side, and returns the solution with the mean of the residuals. For more than
  six samples (ten in particular) generated without noise from a transform \<open>T0\<close>, whose
  design matrix has full column rank, an \<open>lstsq\<close> that keeps its contract returns \<open>T0\<close>
  itself and the residual is 0.
\<close>

theorem solver_round_trip:
  assumes "generated_from T0 pts" and "full_column_rank (design_matrix pts)"
    and "6 < length pts"
    and "lstsq env (design_matrix pts) (real_coords pts) = Inr res"
    and "lstsq_contract (design_matrix pts) (real_coords pts) res"
  shows "design_matrix pts = map (\<lambda>(r, x, y). [x ^ 2, y ^ 2, x * y, x, y, 1]) pts \<and>
         real_coords pts = map fst pts \<and>
         least_square_mapping env pts = Inr (solution res, np_mean (residuals res)) \<and>
         solution res = T0 \<and> within_tol (1 / 10 ^ 6) (solution res) T0 \<and>
         np_mean (residuals res) = Finite 0"
proof -
  let ?A = "design_matrix pts" and ?B = "real_coords pts"
  have ls: "is_least_squares ?A ?B (solution res)"
    using assms(5) by (simp add: lstsq_contract_def)
  note rec = least_squares_recovers [OF assms(1,2) ls]
  have "residuals res = [0, 0]"
    using assms(5,2,3) rec(2) by (simp add: lstsq_contract_def)
  then have m: "np_mean (residuals res) = Finite 0" by (simp add: np_mean_def)
  have w: "within_tol (1 / 10 ^ 6) T0 T0"
    by (simp add: within_tol_def list_all2_conv_all_nth)
  have d: "design_matrix pts = map (\<lambda>(r, x, y). [x ^ 2, y ^ 2, x * y, x, y, 1]) pts"
    by (simp add: design_matrix_def design_row_def Let_def split_def)
  have r: "real_coords pts = map fst pts"
    by (simp add: real_coords_def split_def)
  show ?thesis
    using assms(4) rec(1) m w d r by (simp add: least_square_mapping_def Let_def)
qed

lemma noise_free_generated: "generated_from quadratic_transform noise_free_samples"
  by (simp add: generated_from_def quadratic_transform_def noise_free_samples_def
      real_coords_def design_matrix_def mat_mul_def comp_def)

lemma noise_free_design:
  "design_matrix noise_free_samples = map design_row noise_free_points"
  by (simp add: design_matrix_def noise_free_samples_def comp_def)

lemma noise_free_full_rank: "full_column_rank (design_matrix noise_free_samples)"
  unfolding full_column_rank_def
proof (intro allI impI)
  fix c :: "real list"
  assume l: "length c = 6" and z: "\<forall>row \<in> set (design_matrix noise_free_samples). dot row c = 0"
  from l obtain c1 c2 c3 c4 c5 c6 where c: "c = [c1, c2, c3, c4, c5, c6]"
    by (rule length_6_obtain)
  from z have eqs: "c6 = 0" "c1 / 4 + c4 / 2 + c6 = 0" "c1 / 4 - c4 / 2 + c6 = 0"
    "c2 / 4 + c5 / 2 + c6 = 0" "c2 / 4 - c5 / 2 + c6 = 0"
    "c1 / 4 + c2 / 4 + c3 / 4 + c4 / 2 + c5 / 2 + c6 = 0"
    by (simp_all add: noise_free_design noise_free_points_def design_row_def c Let_def
        power2_eq_square)
  then have "c1 = 0" "c2 = 0" "c3 = 0" "c4 = 0" "c5 = 0" "c6 = 0" by linarith+
  then show "c = replicate 6 0" by (simp add: c replicate_6)
qed

text \<open>The ten samples of \<open>noise_free_samples\<close>.\<close>

theorem solver_round_trip_witness:
  "generated_from quadratic_transform noise_free_samples \<and>
   full_column_rank (design_matrix noise_free_samples) \<and> length noise_free_samples = 10 \<and>
   least_square_mapping exact_env noise_free_samples = Inr (quadratic_transform, Finite 0)"
proof -
  have l: "6 < length noise_free_samples" "length noise_free_samples = 10"
    by (simp_all add: noise_free_samples_def noise_free_points_def)
  have call: "lstsq exact_env (design_matrix noise_free_samples) (real_coords noise_free_samples)
      = Inr \<lparr>solution = quadratic_transform, residuals = [0, 0], rank = 6, singular_values = []\<rparr>"
    by (simp add: exact_env_def)
  from solver_round_trip [OF noise_free_generated noise_free_full_rank l(1) call
      exact_solution_contract [OF noise_free_generated noise_free_full_rank l(1)]]
  show ?thesis
    using noise_free_generated noise_free_full_rank l(2) by simp
qed

lemma repeated_design:
  "design_matrix repeated_samples = replicate 10 [0, 0, 0, 0, 0, 1]"
  "real_coords repeated_samples = replicate 10 (0, 0)"
  by (simp_all add: design_matrix_def real_coords_def repeated_samples_def design_row_def)

lemma repeated_not_full_rank: "\<not> full_column_rank (design_matrix repeated_samples)"
proof
  assume "full_column_rank (design_matrix repeated_samples)"
  then have "[1, 0, 0, 0, 0, 0] = replicate 6 (0::real)"
    unfolding full_column_rank_def by (rule allE [where x = "[1, 0, 0, 0, 0, 0]"]) (simp add: repeated_design)
  then show False by (simp add: replicate_6)
qed

text \<open>
  C3, as stated, fails on degenerate samples: \<open>repeated_samples\<close> are generated without
  noise from \<open>hidden_transform\<close>, yet the answer that satisfies the contract of \<open>lstsq\<close>
  is the zero matrix, which differs from \<open>hidden_transform\<close> by 1, and the residual is
  \<open>nan\<close>.
\<close>

theorem repeated_samples_counterexample:
  "length repeated_samples = 10 \<and> generated_from hidden_transform repeated_samples \<and>
   lstsq_contract (design_matrix repeated_samples) (real_coords repeated_samples) zero_result \<and>
   least_square_mapping zero_env repeated_samples = Inr (replicate 6 (0, 0), NaN) \<and>
   \<not> within_tol (1 / 10 ^ 6) (replicate 6 (0, 0)) hidden_transform"
proof (intro conjI)
  show "length repeated_samples = 10" by (simp add: repeated_samples_def)
  show "generated_from hidden_transform repeated_samples"
    by (simp add: generated_from_def hidden_transform_def repeated_design mat_mul_def
        matT_vec_def map_replicate_const)
  show "lstsq_contract (design_matrix repeated_samples) (real_coords repeated_samples) zero_result"
    unfolding zero_result_def
    by (rule zero_solution_contract) (simp add: repeated_design, rule repeated_not_full_rank)
  show "least_square_mapping zero_env repeated_samples = Inr (replicate 6 (0, 0), NaN)"
    by (simp add: least_square_mapping_def zero_env_def zero_result_def np_mean_def)
  show "\<not> within_tol (1 / 10 ^ 6) (replicate 6 (0, 0)) hidden_transform"
    by (simp add: within_tol_def hidden_transform_def replicate_6)
qed

lemma process_state_10:
  "state s = 10 \<Longrightarrow> process_state env tool rep s = camera_calibration_solve env s"
  by (simp add: process_state_def)

text \<open>
  C7, amended. When the samples are degenerate (the design matrix has rank below six)
  and \<open>lstsq\<close> answers as its contract says, the solver reports no failure: it returns
  the solution with the residual \<open>nan\<close>, and the controller stores that matrix and goes
  on to state 200.
\<close>

theorem degenerate_fit_not_reported:
  assumes "state s = 10" and "tool_coordinates s = Some tc"
    and "length (space_coordinates s) = length (camera_coordinates s)"
    and "pts = transform_input env (space_coordinates s @ [tc]) (camera_coordinates s @ [xy s])"
    and "\<not> full_column_rank (design_matrix pts)"
    and "lstsq env (design_matrix pts) (real_coords pts) = Inr res"
    and "lstsq_contract (design_matrix pts) (real_coords pts) res"
    and "0 < camera_width env" and "0 < camera_height env"
  shows "least_square_mapping env pts = Inr (solution res, NaN) \<and>
         (\<exists>s'. process_state env tool rep s = Inr (Continue s') \<and> state s' = 200 \<and>
            transform_matrix s' = solution res \<and> transform_residual s' = NaN)"
proof -
  have "residuals res = []"
    using assms(5,7) by (simp add: lstsq_contract_def)
  then have l: "least_square_mapping env pts = Inr (solution res, NaN)"
    using assms(6) by (simp add: least_square_mapping_def np_mean_def)
  have six: "length (solution res) = 6"
    using assms(7) by (simp add: lstsq_contract_def is_least_squares_def)
  have "\<exists>s'. camera_calibration_solve env s = Inr (Continue s') \<and> state s' = 200 \<and>
            transform_matrix s' = solution res \<and> transform_residual s' = NaN"
    using assms(2,3) l six unfolding assms(4)
    by (simp add: camera_calibration_solve_def Let_def)
  then show ?thesis
    using l by (simp add: process_state_10 [OF assms(1)])
qed

lemma collinear_fields:
  "state collinear_state = 10" "tool_coordinates collinear_state = Some (0, 0)"
  "length (space_coordinates collinear_state) = length (camera_coordinates collinear_state)"
  by (simp_all add: collinear_state_def)

lemma collinear_input:
  "transform_input zero_env (space_coordinates collinear_state @ [(0, 0)])
     (camera_coordinates collinear_state @ [xy collinear_state]) = collinear_samples"
  by (simp add: collinear_state_def collinear_samples_def transform_input_def
      normalize_coords_def zero_env_def float_of_def)

lemma collinear_design:
  "real_coords collinear_samples = replicate (length (design_matrix collinear_samples)) (0, 0)"
  by (simp add: real_coords_def design_matrix_def collinear_samples_def)


lemma collinear_not_full_rank: "\<not> full_column_rank (design_matrix collinear_samples)"
proof
  assume "full_column_rank (design_matrix collinear_samples)"
  then have "[0, 1, 0, 0, 0, 0] = replicate 6 (0::real)"
    unfolding full_column_rank_def
    by (rule allE [where x = "[0, 1, 0, 0, 0, 0]"])
       (simp add: design_matrix_def collinear_samples_def design_row_def Let_def)
  then show False by (simp add: replicate_6)
qed

lemma collinear_contract:
  "lstsq_contract (design_matrix collinear_samples) (real_coords collinear_samples) zero_result"
  unfolding zero_result_def
  by (rule zero_solution_contract) (rule collinear_design, rule collinear_not_full_rank)

text \<open>The step at \<open>collinear_state\<close>.\<close>

theorem degenerate_fit_not_reported_witness:
  "state collinear_state = 10 \<and> tool_coordinates collinear_state = Some (0, 0) \<and>
   \<not> full_column_rank (design_matrix collinear_samples) \<and>
   lstsq_contract (design_matrix collinear_samples) (real_coords collinear_samples) zero_result \<and>
   0 < camera_width zero_env \<and> 0 < camera_height zero_env \<and>
   (\<exists>s'. process_state zero_env 0 0 collinear_state = Inr (Continue s') \<and> state s' = 200 \<and>
      transform_matrix s' = replicate 6 (0, 0) \<and> transform_residual s' = NaN)"
proof -
  have call: "lstsq zero_env (design_matrix collinear_samples) (real_coords collinear_samples)
      = Inr zero_result"
    by (simp add: zero_env_def)
  have p: "0 < camera_width zero_env" "0 < camera_height zero_env"
    by (simp_all add: zero_env_def)
  from degenerate_fit_not_reported [OF collinear_fields collinear_input [symmetric]
      collinear_not_full_rank call collinear_contract p, of 0 0]
  show ?thesis
    using collinear_fields collinear_not_full_rank collinear_contract p
    by (simp add: zero_result_def)
qed

text \<open>
  C7, as stated, fails: for eleven collinear samples the solver returns the zero matrix
  and \<open>nan\<close> without any failure, and the calibration moves on to state 200.
\<close>

theorem collinear_samples_counterexample:
  "\<not> full_column_rank (design_matrix collinear_samples) \<and>
   lstsq_contract (design_matrix collinear_samples) (real_coords collinear_samples) zero_result \<and>
   least_square_mapping zero_env collinear_samples = Inr (replicate 6 (0, 0), NaN) \<and>
   transform_input zero_env (space_coordinates collinear_state @ [(0, 0)])
     (camera_coordinates collinear_state @ [xy collinear_state]) = collinear_samples \<and>
   (case process_state zero_env 0 0 collinear_state of
      Inr (Continue s') \<Rightarrow> state s' = 200 \<and> transform_matrix s' = replicate 6 (0, 0)
    | _ \<Rightarrow> False)"
proof (intro conjI)
  show "\<not> full_column_rank (design_matrix collinear_samples)" by (rule collinear_not_full_rank)
  show "lstsq_contract (design_matrix collinear_samples) (real_coords collinear_samples) zero_result"
    by (rule collinear_contract)
  show "least_square_mapping zero_env collinear_samples = Inr (replicate 6 (0, 0), NaN)"
    by (simp add: least_square_mapping_def zero_env_def zero_result_def np_mean_def)
  show "transform_input zero_env (space_coordinates collinear_state @ [(0, 0)])
     (camera_coordinates collinear_state @ [xy collinear_state]) = collinear_samples"
    by (rule collinear_input)
  have "camera_calibration_solve zero_env collinear_state =
      (case least_square_mapping zero_env collinear_samples of
         Inl e \<Rightarrow> Inl e
       | Inr (tm, res) \<Rightarrow>
           if length tm \<noteq> 6 then Inl ValueError
           else (let newCenter = matT_vec tm [0, 0, 0, 0, 0, 1];
                     guess = (around (fst newCenter) 3, around (snd newCenter) 3)
                 in Inr (Continue
                      (collinear_state\<lparr>oldxy := xy collinear_state,
                         space_coordinates := space_coordinates collinear_state @ [(0, 0)],
                         camera_coordinates := camera_coordinates collinear_state @ [xy collinear_state],
                         transform_matrix := tm,
                         transform_residual := res,
                         guess_position := guess,
                         sent := sent collinear_state @ [AbsMove (fst guess) (snd guess) 1000],
                         state := 200\<rparr>))))"
    unfolding camera_calibration_solve_def collinear_fields(2) option.case Let_def collinear_input
    using collinear_fields(3) by simp
  then show "case process_state zero_env 0 0 collinear_state of
      Inr (Continue s') \<Rightarrow> state s' = 200 \<and> transform_matrix s' = replicate 6 (0, 0)
    | _ \<Rightarrow> False"
    by (simp add: process_state_10 [OF collinear_fields(1)] least_square_mapping_def
        zero_env_def zero_result_def np_mean_def Let_def)
qed

section \<open>The result record\<close>

lemma of_char_digit_char: "d < 10 \<Longrightarrow> (of_char (digit_char d) :: nat) = 48 + d"
  by (simp add: digit_char_def)

lemma is_digit_digit_char: "d < 10 \<Longrightarrow> is_digit (digit_char d)"
  by (simp add: is_digit_def of_char_digit_char)

lemma is_digit_not_punct:
  assumes "is_digit c"
  shows "c \<noteq> CHR ''.''" "c \<noteq> CHR ''-''" "c \<noteq> CHR ''i''" "c \<noteq> CHR ''n''"
  using assms by (auto simp: is_digit_def)

lemma nat_of_digits_snoc:
  "nat_of_digits (s @ [c]) = 10 * nat_of_digits s + (of_char c - 48)"
  by (simp add: nat_of_digits_def)

lemma str_nat_digits: "list_all is_digit (str_nat n) \<and> str_nat n \<noteq> []"
proof (induction n rule: str_nat.induct)
  case (1 n)
  show ?case
  proof (cases "n < 10")
    case True
    then show ?thesis by (simp add: str_nat.simps [of n] is_digit_digit_char)
  next
    case False
    with 1 show ?thesis
      by (simp add: str_nat.simps [of n] is_digit_digit_char)
  qed
qed

lemma all_digits_str_nat: "all_digits (str_nat n)"
  using str_nat_digits [of n] by (simp add: all_digits_def)

lemma nat_of_digits_str_nat: "nat_of_digits (str_nat n) = n"
proof (induction n rule: str_nat.induct)
  case (1 n)
  show ?case
  proof (cases "n < 10")
    case True
    then show ?thesis
      by (simp add: str_nat.simps [of n] nat_of_digits_def of_char_digit_char)
  next
    case False
    with 1 have "nat_of_digits (str_nat (n div 10)) = n div 10" by simp
    with False show ?thesis
      by (simp add: str_nat.simps [of n] nat_of_digits_snoc of_char_digit_char)
  qed
qed

lemma py_int_str_nat: "py_int (str_nat n) = Some n"
  by (simp add: py_int_def all_digits_str_nat nat_of_digits_str_nat)

lemma length_str_nat:
  "0 < d \<Longrightarrow> n < 10 ^ d \<Longrightarrow> length (str_nat n) \<le> d"
proof (induction n arbitrary: d rule: str_nat.induct)
  case (1 n)
  show ?case
  proof (cases "n < 10")
    case True
    with 1 show ?thesis by (simp add: str_nat.simps [of n])
  next
    case False
    obtain e where e: "d = Suc e" using "1.prems"(1) by (cases d) auto
    have "e \<noteq> 0"
    proof
      assume "e = 0"
      with e "1.prems"(2) False show False by simp
    qed
    then have e0: "0 < e" by simp
    have "n div 10 < 10 ^ e" using "1.prems"(2) e by (simp add: less_mult_imp_div_less mult.commute)
    from "1.IH" [OF False e0 this] e False show ?thesis
      by (simp add: str_nat.simps [of n])
  qed
qed

lemma nat_of_digits_zeros: "nat_of_digits (replicate k (CHR ''0'') @ s) = nat_of_digits s"
  by (induction k) (simp_all add: nat_of_digits_def)

lemma nat_of_digits_append_zeros:
  "nat_of_digits (s @ replicate j (CHR ''0'')) = nat_of_digits s * 10 ^ j"
proof (induction j)
  case 0
  then show ?case by simp
next
  case (Suc j)
  have "s @ replicate (Suc j) (CHR ''0'') = (s @ replicate j (CHR ''0'')) @ [CHR ''0'']"
    by (simp add: replicate_append_same)
  then show ?case
    using Suc by (simp only: nat_of_digits_snoc) simp
qed

lemma zero_pad_props:
  assumes "0 < d" and "m < 10 ^ d"
  shows "all_digits (zero_pad d (str_nat m))" "length (zero_pad d (str_nat m)) = d"
    "nat_of_digits (zero_pad d (str_nat m)) = m"
proof -
  have l: "length (str_nat m) \<le> d" by (rule length_str_nat [OF assms])
  have z: "is_digit (CHR ''0'')" by (simp add: is_digit_def)
  show "all_digits (zero_pad d (str_nat m))"
    using str_nat_digits [of m] z by (auto simp: all_digits_def zero_pad_def list_all_iff)
  show "length (zero_pad d (str_nat m)) = d" using l by (simp add: zero_pad_def)
  show "nat_of_digits (zero_pad d (str_nat m)) = m"
    by (simp add: zero_pad_def nat_of_digits_zeros nat_of_digits_str_nat)
qed

lemma parse_decimal_point:
  assumes "all_digits ip" and "all_digits fp"
  shows "parse_decimal (ip @ CHR ''.'' # fp) =
           Some (real (nat_of_digits ip) + real (nat_of_digits fp) / 10 ^ length fp)"
proof -
  have nd: "\<forall>c \<in> set ip. c \<noteq> CHR ''.''"
    using assms(1) is_digit_not_punct(1) by (auto simp: all_digits_def list_all_iff)
  have t: "takeWhile (\<lambda>c. c \<noteq> CHR ''.'') (ip @ CHR ''.'' # fp) = ip"
    using nd by simp
  have d: "dropWhile (\<lambda>c. c \<noteq> CHR ''.'') (ip @ CHR ''.'' # fp) = CHR ''.'' # fp"
    using nd by simp
  show ?thesis
    unfolding parse_decimal_def t d Let_def using assms by simp
qed

lemma strip_trailing_zeros_props:
  assumes "all_digits fp"
  shows "all_digits (strip_trailing_zeros fp)"
    "real (nat_of_digits (strip_trailing_zeros fp)) / 10 ^ length (strip_trailing_zeros fp)
       = real (nat_of_digits fp) / 10 ^ length fp"
proof -
  let ?P = "\<lambda>c. c = CHR ''0''"
  let ?t = "rev (dropWhile ?P (rev fp))"
  let ?z = "rev (takeWhile ?P (rev fp))"
  have split: "fp = ?t @ ?z"
    by (metis rev_append rev_rev_ident takeWhile_dropWhile_id)
  have "\<And>y. y \<in> set ?z \<Longrightarrow> y = CHR ''0''"
    by (auto dest: set_takeWhileD)
  then have z: "?z = replicate (length ?z) (CHR ''0'')"
    by (intro replicate_eqI) simp_all
  have v: "nat_of_digits fp = nat_of_digits ?t * 10 ^ length ?z"
    using nat_of_digits_append_zeros [of ?t "length ?z"] split z by metis
  have len: "length fp = length ?t + length ?z"
    using split by (metis length_append)
  have dt: "list_all is_digit ?t"
    using assms split by (metis all_digits_def list_all_append)
  show "all_digits (strip_trailing_zeros fp)"
    using dt by (simp add: strip_trailing_zeros_def Let_def all_digits_def is_digit_def)
  show "real (nat_of_digits (strip_trailing_zeros fp)) / 10 ^ length (strip_trailing_zeros fp)
       = real (nat_of_digits fp) / 10 ^ length fp"
  proof (cases "?t = []")
    case True
    have "nat_of_digits ([] :: string) = 0" by (simp add: nat_of_digits_def)
    then have "nat_of_digits ?t = 0" using True by metis
    then have n0: "nat_of_digits fp = 0" unfolding v by simp
    have "strip_trailing_zeros fp = ''0''"
      unfolding strip_trailing_zeros_def Let_def by (simp only: True) simp
    then show ?thesis unfolding n0 by (simp add: nat_of_digits_def)
  next
    case False
    have "strip_trailing_zeros fp = ?t"
      unfolding strip_trailing_zeros_def Let_def by (simp only: False if_False)
    then show ?thesis
      unfolding v len by (simp add: power_add)
  qed
qed

lemma sample_record:
  "result_record 0 0 (Finite (1/10)) (15/10) (-(12/10)) =
     [(''tool'', ''0''), (''cycle'', ''0''), (''mpp'', ''0.1''), (''X'', ''1.500''), (''Y'', ''-1.200'')]"
  by code_simp

lemma decimal_value:
  "real (m div 10 ^ d) + real (m mod 10 ^ d) / 10 ^ d = real m / 10 ^ d"
proof -
  have "m = m div 10 ^ d * 10 ^ d + m mod 10 ^ d" by (rule div_mult_mod_eq [symmetric])
  then have "real m = real (m div 10 ^ d * 10 ^ d + m mod 10 ^ d)" by (rule arg_cong)
  also have "\<dots> = real (m div 10 ^ d) * 10 ^ d + real (m mod 10 ^ d)"
    by (simp only: of_nat_add of_nat_mult of_nat_power of_nat_numeral)
  finally have e: "real m = real (m div 10 ^ d) * 10 ^ d + real (m mod 10 ^ d)" .
  have "real m / 10 ^ d = (real (m div 10 ^ d) * 10 ^ d + real (m mod 10 ^ d)) / 10 ^ d"
    using e by (rule arg_cong)
  then show ?thesis by (simp add: add_divide_distrib)
qed

lemma py_float_signed:
  assumes "all_digits ip" and "all_digits fp"
  shows "py_float ((if neg then ''-'' else []) @ ip @ CHR ''.'' # fp) =
           Some (Finite ((if neg then - 1 else 1) *
             (real (nat_of_digits ip) + real (nat_of_digits fp) / 10 ^ length fp)))"
proof -
  obtain c ip' where ip: "ip = c # ip'" and c: "is_digit c"
    using assms(1) by (cases ip) (auto simp: all_digits_def)
  note np = is_digit_not_punct [OF c]
  note pd = parse_decimal_point [OF assms]
  show ?thesis
  proof (cases neg)
    case True
    then show ?thesis
      using np pd by (simp add: py_float_def ip)
  next
    case False
    then show ?thesis
      using np pd by (simp add: py_float_def ip)
  qed
qed

lemma signed_value:
  fixes k :: int
  shows "(if k < 0 then - 1 else 1) * (real (nat \<bar>k\<bar>) / 10 ^ d) = real_of_int k / 10 ^ d"
  by simp

lemma py_float_format_fixed:
  assumes "0 < d"
  shows "py_float (format_fixed d x) = Some (Finite (around x d))"
proof -
  define k where "k = rint (x * 10 ^ d)"
  define m where "m = nat \<bar>k\<bar>"
  have lt: "m mod 10 ^ d < 10 ^ d" by simp
  note zp = zero_pad_props [OF assms lt]
  have "format_fixed d x =
      (if k < 0 then ''-'' else []) @ str_nat (m div 10 ^ d) @ CHR ''.'' #
        zero_pad d (str_nat (m mod 10 ^ d))"
    by (simp add: format_fixed_def k_def m_def Let_def)
  then have "py_float (format_fixed d x) =
      Some (Finite ((if k < 0 then - 1 else 1) *
        (real (m div 10 ^ d) + real (m mod 10 ^ d) / 10 ^ d)))"
    using py_float_signed [OF all_digits_str_nat zp(1), of "k < 0" "m div 10 ^ d"]
    by (simp only: zp(2,3) nat_of_digits_str_nat)
  also have "\<dots> = Some (Finite (real_of_int k / 10 ^ d))"
    unfolding decimal_value m_def signed_value ..
  finally show ?thesis by (simp add: around_def k_def)
qed

lemma py_float_str_float4: "py_float (str_float4 v) = Some (np_around v 4)"
proof (cases v)
  case (Finite x)
  define k where "k = rint (x * 10 ^ 4)"
  define m where "m = nat \<bar>k\<bar>"
  have lt: "m mod 10 ^ 4 < 10 ^ 4" by simp
  have four: "0 < (4::nat)" by simp
  note zp = zero_pad_props [OF four lt]
  note st = strip_trailing_zeros_props [OF zp(1)]
  have "str_float4 v =
      (if k < 0 then ''-'' else []) @ str_nat (m div 10 ^ 4) @ CHR ''.'' #
        strip_trailing_zeros (zero_pad 4 (str_nat (m mod 10 ^ 4)))"
    by (simp add: Finite k_def m_def Let_def)
  then have "py_float (str_float4 v) =
      Some (Finite ((if k < 0 then - 1 else 1) *
        (real (m div 10 ^ 4) + real (m mod 10 ^ 4) / 10 ^ 4)))"
    using py_float_signed [OF all_digits_str_nat st(1), of "k < 0" "m div 10 ^ 4"]
    by (simp only: st(2) zp(2,3) nat_of_digits_str_nat)
  also have "\<dots> = Some (Finite (real_of_int k / 10 ^ 4))"
    unfolding decimal_value m_def signed_value ..
  finally show ?thesis by (simp add: around_def k_def Finite)
qed (simp_all add: py_float_def)

lemma around_idem: "around (around x d) d = around x d"
proof -
  have h: "around x d * 10 ^ d = of_int (rint (x * 10 ^ d))"
    by (simp add: around_def)
  have "around (around x d) d = of_int (rint (x * 10 ^ d)) / 10 ^ d"
    unfolding around_def [of "around x d"] h rint_of_int ..
  then show ?thesis by (simp add: around_def)
qed

lemma np_around_idem: "np_around (np_around v d) d = np_around v d"
  by (cases v) (simp_all add: around_idem)

lemma process_state_Return:
  assumes "process_state env tool rep s = Inr (Return r s')"
  shows "nozzle_alignment env tool rep s = Inr (Return r s')"
proof -
  have "camera_calibration_start s \<noteq> Inr (Return r s')"
    by (simp add: camera_calibration_start_def Let_def split: option.splits)
  moreover have "camera_calibration_move s \<noteq> Inr (Return r s')"
    by (simp add: camera_calibration_move_def Let_def split: option.splits)
  moreover have "camera_calibration_solve env s \<noteq> Inr (Return r s')"
    by (simp add: camera_calibration_solve_def Let_def
        split: option.splits sum.splits prod.splits)
  ultimately show ?thesis
    using assms by (simp add: process_state_def split: if_splits)
qed

lemma nozzle_alignment_Return:
  assumes "nozzle_alignment env tool rep s = Inr (Return (r, tm, mp) s')"
  shows "\<exists>fx fy. ret_X r = around fx 3 \<and> ret_Y r = around fy 3 \<and> ret_MPP r = mpp s \<and>
           emitted s' = emitted s @ [result_record tool rep (mpp s) (ret_X r) (ret_Y r)]"
  using assms
  by (auto simp: nozzle_alignment_def Let_def split: if_splits option.splits)

text \<open>
  C9. The record emitted when a tool's calibration returns has exactly the fields
  \<open>tool\<close>, \<open>cycle\<close>, \<open>mpp\<close>, \<open>X\<close>, \<open>Y\<close>, in this order, all of them strings;
  \<open>tool\<close> and \<open>cycle\<close> read back as the tool number and the cycle index, \<open>X\<close> and
  \<open>Y\<close> read back as the returned offsets (which have three decimals), and \<open>mpp\<close>
  reads back as the mpp value rounded to four decimals, which is the value itself whenever
  it came out of \<^verbatim>\<open>np.around(..., 4)\<close>. The export writes the list of these same
  dictionaries with \<^verbatim>\<open>json.dump\<close>.
\<close>

theorem result_record_round_trip:
  assumes "process_state env tool rep s = Inr (Return (r, tm, mp) s')"
  shows "\<exists>ts cs ms xs ys.
           emitted s' = emitted s @
             [[(''tool'', ts), (''cycle'', cs), (''mpp'', ms), (''X'', xs), (''Y'', ys)]] \<and>
           py_int ts = Some tool \<and> py_int cs = Some rep \<and>
           py_float ms = Some (np_around (ret_MPP r) 4) \<and>
           (\<forall>m. ret_MPP r = np_around m 4 \<longrightarrow> py_float ms = Some (ret_MPP r)) \<and>
           py_float xs = Some (Finite (ret_X r)) \<and> py_float ys = Some (Finite (ret_Y r))"
proof -
  from nozzle_alignment_Return [OF process_state_Return [OF assms]]
  obtain fx fy where r: "ret_X r = around fx 3" "ret_Y r = around fy 3" "ret_MPP r = mpp s"
    and e: "emitted s' = emitted s @ [result_record tool rep (mpp s) (ret_X r) (ret_Y r)]"
    by blast
  have three: "0 < (3::nat)" by simp
  have x: "py_float (format_3f (ret_X r)) = Some (Finite (ret_X r))"
    unfolding format_3f_def py_float_format_fixed [OF three] r(1) around_idem ..
  have y: "py_float (format_3f (ret_Y r)) = Some (Finite (ret_Y r))"
    unfolding format_3f_def py_float_format_fixed [OF three] r(2) around_idem ..
  have m: "py_float (str_float4 (mpp s)) = Some (np_around (ret_MPP r) 4)"
    unfolding r(3) by (rule py_float_str_float4)
  have m': "\<forall>m. ret_MPP r = np_around m 4 \<longrightarrow> py_float (str_float4 (mpp s)) = Some (ret_MPP r)"
    using m by (auto simp: np_around_idem)
  show ?thesis
    using e x y m m' by (simp add: result_record_def py_int_str_nat)
qed

lemma centred_step:
  "\<exists>s'. process_state sample_env 0 0 centred_state =
          Inr (Return (\<lparr>ret_X = 15/10, ret_Y = - (12/10), ret_MPP = Finite (1/10)\<rparr>,
                       sample_matrix, Finite (1/10)) s') \<and>
        emitted s' = [result_record 0 0 (Finite (1/10)) (15/10) (- (12/10))]"
proof -
  have a: "around (3/2) 3 = 3/2" "around (- (6/5)) 3 = - (6/5)"
    by (simp_all add: around_def rint_def Let_def)
  have e: "cp_coords sample_env = (100, 100)" "getG10ToolOffset sample_env 0 = (0, 0)"
    by (simp_all add: sample_env_def)
  have i: "emitted centred_state = []" by (simp add: centred_state_def init_state_def)
  show ?thesis
    unfolding process_state_200 [OF centred_fields(1)]
    by (simp add: nozzle_alignment_def centred_fields centred_offsets
        sample_matrix_length e i a Let_def)
qed

text \<open>The record emitted at \<open>centred_state\<close>.\<close>

theorem result_record_round_trip_witness:
  "\<exists>r s'. process_state sample_env 0 0 centred_state =
            Inr (Return (r, sample_matrix, Finite (1/10)) s') \<and>
          emitted s' =
            [[(''tool'', ''0''), (''cycle'', ''0''), (''mpp'', ''0.1''), (''X'', ''1.500''),
              (''Y'', ''-1.200'')]] \<and>
          py_int ''0'' = Some 0 \<and> py_float ''0.1'' = Some (Finite (1/10)) \<and>
          py_float ''1.500'' = Some (Finite (ret_X r)) \<and>
          py_float ''-1.200'' = Some (Finite (ret_Y r)) \<and>
          ret_X r = 15/10 \<and> ret_Y r = - (12/10)"
proof -
  from centred_step obtain s' where
    st: "process_state sample_env 0 0 centred_state =
          Inr (Return (\<lparr>ret_X = 15/10, ret_Y = - (12/10), ret_MPP = Finite (1/10)\<rparr>,
                       sample_matrix, Finite (1/10)) s')"
    and em: "emitted s' = [result_record 0 0 (Finite (1/10)) (15/10) (- (12/10))]"
    by blast
  have i: "emitted centred_state = []" by (simp add: centred_state_def init_state_def)
  have n: "around (1/10) 4 = 1/10"
    by (simp add: around_def rint_def Let_def)
  from result_record_round_trip [OF st] em
  have "py_int ''0'' = Some 0 \<and> py_float ''0.1'' = Some (Finite (1/10)) \<and>
        py_float ''1.500'' = Some (Finite (15/10)) \<and>
        py_float ''-1.200'' = Some (Finite (- (12/10)))"
    unfolding sample_record i by (auto simp: n)
  with st em show ?thesis
    unfolding sample_record by (intro exI [of _ "\<lparr>ret_X = 15/10, ret_Y = - (12/10), ret_MPP = Finite (1/10)\<rparr>"] exI [of _ s']) simp
qed

end
